theory Spec2Isabelle
  imports Main "HOL-Library.Word"
begin

section \<open>Data model of the DDNS client (main.py)\<close>

text \<open>
  Python strings are held as the bytes of their UTF-8 encoding. The only string
  operations of the program are equality, membership in a list, \<open>endswith(".")\<close>
  and \<open>lower()\<close>.
\<close>

type_synonym ipv4 = "32 word"

text \<open>Address families that psutil reports in the \<open>family\<close> field of an address entry.\<close>

datatype family = AF_INET | AF_INET6 | AF_LINK

text \<open>One entry of an interface's address list (psutil's \<open>snicaddr\<close>).\<close>

record snicaddr =
  family :: family
  address :: string

text \<open>
  The dictionary returned by \<open>psutil.net_if_addrs()\<close>, in iteration (insertion)
  order: interface name and that interface's address list.
\<close>

type_synonym net_if_addrs = "(string \<times> snicaddr list) list"

text \<open>
  Exceptions, one constructor for each raise site of main.py and for each kind
  of exception that reaches the program from a library call. All of them are
  subclasses of \<open>Exception\<close>; only \<open>DNSException\<close> stands for the subclasses of
  \<open>dns.exception.DNSException\<close>. \<open>ValidationError\<close> is the error of the settings
  class, with the names of the fields that failed.
\<close>

datatype exn =
    InterfaceNotFound string
  | UnsupportedProtocol string
  | NetifUnbound
  | AddressValueError string
  | NoCompressedAttribute
  | DNSException string
  | OtherError string
  | ValidationError "string list"

fun is_DNSException :: "exn \<Rightarrow> bool" where
  "is_DNSException (DNSException _) = True"
| "is_DNSException _ = False"

section \<open>The standard library's IPv4Address\<close>

definition isdigit :: "char \<Rightarrow> bool" where
  "isdigit c = (48 \<le> (of_char c :: nat) \<and> (of_char c :: nat) \<le> 57)"

definition digit_val :: "char \<Rightarrow> nat" where
  "digit_val c = of_char c - 48"

text \<open>\<open>str.split(".")\<close>\<close>

fun split_dot :: "string \<Rightarrow> string list" where
  "split_dot [] = [[]]"
| "split_dot (c # cs) =
     (if c = CHR ''.'' then [] # split_dot cs
      else (case split_dot cs of
              [] \<Rightarrow> [[c]]
            | p # ps \<Rightarrow> (c # p) # ps))"

text \<open>\<open>int(octet_str, 10)\<close> on a string of ASCII digits.\<close>

definition int10 :: "string \<Rightarrow> nat" where
  "int10 s = foldl (\<lambda>acc c. 10 * acc + digit_val c) 0 s"

text \<open>
  \<open>_parse_octet\<close>: an octet is one to three ASCII digits, without a leading zero
  unless it is \<open>0\<close> itself, and at most 255.
\<close>

definition parse_octet :: "string \<Rightarrow> nat option" where
  "parse_octet octet_str =
     (if octet_str = [] then None
      else if \<not> list_all isdigit octet_str then None
      else if length octet_str > 3 then None
      else if octet_str \<noteq> ''0'' \<and> hd octet_str = CHR ''0'' then None
      else if int10 octet_str > 255 then None
      else Some (int10 octet_str))"

text \<open>\<open>int.from_bytes(octets, "big")\<close> for four octets.\<close>

definition from_octets :: "nat \<Rightarrow> nat \<Rightarrow> nat \<Rightarrow> nat \<Rightarrow> ipv4" where
  "from_octets a b c d =
     push_bit 24 (word_of_nat a) + push_bit 16 (word_of_nat b) + push_bit 8 (word_of_nat c)
       + word_of_nat d"

text \<open>The constructor \<open>IPv4Address(text)\<close>; a malformed text raises \<open>AddressValueError\<close>.\<close>

definition IPv4Address :: "string \<Rightarrow> exn + ipv4" where
  "IPv4Address ip_str =
     (if ip_str = [] then Inl (AddressValueError ip_str)
      else (case map parse_octet (split_dot ip_str) of
              [Some a, Some b, Some c, Some d] \<Rightarrow> Inr (from_octets a b c d)
            | _ \<Rightarrow> Inl (AddressValueError ip_str)))"

text \<open>The networks 127.0.0.0/8, 169.254.0.0/16 and 240.0.0.0/4.\<close>

definition is_loopback :: "ipv4 \<Rightarrow> bool" where
  "is_loopback ip = (drop_bit 24 ip = 127)"

definition is_link_local :: "ipv4 \<Rightarrow> bool" where
  "is_link_local ip = (drop_bit 16 ip = 0xA9FE)"

definition is_reserved :: "ipv4 \<Rightarrow> bool" where
  "is_reserved ip = (drop_bit 28 ip = 0xF)"

datatype level = INFO | ERROR | DEBUG

section \<open>Configuration\<close>

record TSIGKey =
  name :: string
  algorithm :: string
  secret :: string

text \<open>
  The field \<open>name_server\<close> is declared \<open>IPvAnyAddress | None\<close>, and the command
  line assigns it the text of \<open>--name-server\<close> as it is: \<open>NS_None\<close> is \<open>None\<close>,
  \<open>NS_Str\<close> a plain string, \<open>NS_Addr\<close> an address object, held as the text that
  its attribute \<open>compressed\<close> returns.
\<close>

datatype ns_value = NS_None | NS_Str string | NS_Addr string

record Config =
  tsig :: "TSIGKey list"
  name_server :: ns_value
  zone :: string
  hostname :: string
  ttl :: int
  timeout :: int
  protocol :: string
  interface :: "string option"
  log_level :: string

section \<open>The DNS library's objects, as the program uses them\<close>

text \<open>
  The dictionary handed to \<open>dns.tsigkeyring.from_text\<close>: key name, then
  algorithm and secret.
\<close>

type_synonym keydict = "(string \<times> string \<times> string) list"

text \<open>
  An update message is its constructor's arguments and the method calls made on
  it: \<open>Replace n t ty rd\<close> is the call \<open>update.replace(n, t, ty, rd)\<close>.
\<close>

datatype action = Replace string int string string

record update_msg =
  u_zone :: string
  u_keyring :: keydict
  u_actions :: "action list"

definition Update :: "string \<Rightarrow> keydict \<Rightarrow> update_msg" where
  "Update z keyring = \<lparr>u_zone = z, u_keyring = keyring, u_actions = []\<rparr>"

definition replace :: "update_msg \<Rightarrow> string \<Rightarrow> int \<Rightarrow> string \<Rightarrow> string \<Rightarrow> update_msg" where
  "replace u n t rdtype rd = u\<lparr>u_actions := u_actions u @ [Replace n t rdtype rd]\<rparr>"

text \<open>A response: the fields the program reads, \<open>response.id\<close> and \<open>response.rcode()\<close>.\<close>

record response =
  rid :: nat
  rcode :: nat

text \<open>The status codes of \<open>dns.rcode\<close> that the program names.\<close>

definition NOERROR :: nat where "NOERROR = 0"
definition SERVFAIL :: nat where "SERVFAIL = 2"
definition NXDOMAIN :: nat where "NXDOMAIN = 3"
definition REFUSED :: nat where "REFUSED = 5"
definition NOTAUTH :: nat where "NOTAUTH = 9"
definition NOTZONE :: nat where "NOTZONE = 10"

text \<open>
  A callable of the module \<open>dns.query\<close>, applied to the message, the server's
  address and the timeout: it returns the response or raises.
\<close>

type_synonym executor = "update_msg \<Rightarrow> string \<Rightarrow> int \<Rightarrow> exn + response"

text \<open>
  What the program takes from its libraries: \<open>tsigkeyring_from_text\<close> is
  \<open>dns.tsigkeyring.from_text\<close> (it may raise); \<open>Update_raises\<close> and
  \<open>replace_raises\<close> give the exception, if any, with which the library refuses
  the arguments of the constructor \<open>dns.update.Update\<close> and of the method
  \<open>replace\<close> (a malformed name, a TTL out of range); \<open>dns_query\<close> is the
  namespace of the module \<open>dns.query\<close>: \<open>dir(dns.query)\<close> is its domain and
  \<open>getattr(dns.query, n)\<close> its value at \<open>n\<close>.
\<close>

record env =
  tsigkeyring_from_text :: "keydict \<Rightarrow> exn + keydict"
  Update_raises :: "string \<Rightarrow> keydict \<Rightarrow> exn option"
  replace_raises :: "update_msg \<Rightarrow> string \<Rightarrow> int \<Rightarrow> string \<Rightarrow> string \<Rightarrow> exn option"
  dns_query :: "string \<Rightarrow> executor option"

section \<open>Logging and effects\<close>

text \<open>
  One constructor for each message that main.py formats, with the values that
  the message interpolates, in the order of the source:
  the four precondition errors (lines 166 to 175), the resolver's error (127),
  the missing address (186), the announcement (189), the seven results of the
  status code (212 to 237), the two debug lines (239, 243) and the caught DNS
  exception (242).
\<close>

datatype msg =
    NoNameServer
  | NoZone
  | NoHostname
  | NoTSIG
  | ResolveFailed exn
  | NoAddress "string option"
  | Updating string string ipv4
  | UpdateSucceeded nat
  | FailedNXDOMAIN string
  | FailedSERVFAIL string
  | FailedNOTAUTH string
  | FailedNOTZONE string
  | FailedREFUSED string
  | FailedUnknown nat response
  | DebugExchange update_msg ns_value nat response
  | FailedException exn
  | DebugFailed update_msg string ns_value

text \<open>
  The effects of a run, in order: a call of the logger, or a call of the
  attribute \<open>p\<close> of \<open>dns.query\<close> with message, server address and timeout.
\<close>

datatype event =
    Log level msg
  | Query string update_msg string int

fun is_Query :: "event \<Rightarrow> bool" where
  "is_Query (Query _ _ _ _) = True"
| "is_Query _ = False"

text \<open>How a run ends: \<open>main\<close> returns, \<open>sys.exit(n)\<close>, or an exception leaves \<open>main\<close>.\<close>

datatype outcome = Returned | Exit nat | Raised exn

section \<open>get_interface_ip\<close>

text \<open>
  \<open>str.lower()\<close>. Of all code points only A to Z lower to one of the ASCII
  letters that occur in \<open>special_interfaces\<close> (the others that lower into ASCII
  are U+212A, to k, and U+0130, to i and U+0307), and the three CJK characters
  are the lower case of themselves only; so the test of line 111 is decided by
  lowering A to Z in the UTF-8 bytes.
\<close>

definition lower_char :: "char \<Rightarrow> char" where
  "lower_char c =
     (if 65 \<le> (of_char c :: nat) \<and> (of_char c :: nat) \<le> 90
      then char_of ((of_char c :: nat) + 32) else c)"

definition lower :: "string \<Rightarrow> string" where
  "lower s = map lower_char s"

text \<open>The second name is U+4EE5 U+592A U+7F51 ("Ethernet" in Chinese), in UTF-8.\<close>

definition special_interfaces :: "string list" where
  "special_interfaces =
     [''wlan'',
      [CHR 0xE4, CHR 0xBB, CHR 0xA5, CHR 0xE5, CHR 0xA4, CHR 0xAA, CHR 0xE7, CHR 0xBD, CHR 0x91],
      ''ethernet'']"

text \<open>
  The loop of lines 110 to 113: the address list of the first interface, in
  iteration order, whose lowered name is in the list; \<open>None\<close> when the loop ends
  without assigning \<open>netif\<close>.
\<close>

fun select_special :: "net_if_addrs \<Rightarrow> snicaddr list option" where
  "select_special [] = None"
| "select_special ((n, addrs) # rest) =
     (if lower n \<in> set special_interfaces then Some addrs else select_special rest)"

text \<open>The loop of lines 120 to 125; \<open>Inr None\<close> when it ends without returning.\<close>

fun first_usable :: "snicaddr list \<Rightarrow> exn + ipv4 option" where
  "first_usable [] = Inr None"
| "first_usable (addr # rest) =
     (if family addr = AF_INET then
        (case IPv4Address (address addr) of
           Inl e \<Rightarrow> Inl e
         | Inr ip \<Rightarrow>
             if \<not> is_loopback ip \<and> \<not> is_link_local ip \<and> \<not> is_reserved ip
             then Inr (Some ip)
             else first_usable rest)
      else first_usable rest)"

text \<open>
  The body of the \<open>try\<close> (lines 106 to 125). The first argument is what
  \<open>psutil.net_if_addrs()\<close> does: it raises or returns the dictionary. Reading
  \<open>netif\<close> when the loop has not assigned it raises \<open>UnboundLocalError\<close>.
\<close>

definition get_interface_ip_body :: "exn + net_if_addrs \<Rightarrow> string option \<Rightarrow> exn + ipv4 option" where
  "get_interface_ip_body psutil interface_name =
     (case psutil of
        Inl e \<Rightarrow> Inl e
      | Inr net_if_addrs \<Rightarrow>
          (case interface_name of
             None \<Rightarrow>
               (case select_special net_if_addrs of
                  None \<Rightarrow> Inl NetifUnbound
                | Some netif \<Rightarrow> first_usable netif)
           | Some n \<Rightarrow>
               (case map_of net_if_addrs n of
                  None \<Rightarrow> Inl (InterfaceNotFound n)
                | Some netif \<Rightarrow> first_usable netif)))"

text \<open>
  The function: \<open>except Exception\<close> logs the exception and falls through to
  \<open>return None\<close>. The result is the logger calls made and the value returned.
\<close>

definition get_interface_ip :: "exn + net_if_addrs \<Rightarrow> string option \<Rightarrow> event list \<times> ipv4 option" where
  "get_interface_ip psutil interface_name =
     (case get_interface_ip_body psutil interface_name of
        Inl e \<Rightarrow> ([Log ERROR (ResolveFailed e)], None)
      | Inr r \<Rightarrow> ([], r))"

section \<open>main\<close>

text \<open>\<open>str(n)\<close> for a byte, and \<open>IPv4Address.compressed\<close>, the dotted quad.\<close>

definition digit_char :: "nat \<Rightarrow> char" where
  "digit_char d = char_of (48 + d)"

definition str_octet :: "nat \<Rightarrow> string" where
  "str_octet n =
     (if n < 10 then [digit_char n]
      else if n < 100 then [digit_char (n div 10), digit_char (n mod 10)]
      else [digit_char (n div 100), digit_char (n div 10 mod 10), digit_char (n mod 10)])"

definition octets :: "ipv4 \<Rightarrow> nat list" where
  "octets ip =
     [unat (drop_bit 24 ip), unat (take_bit 8 (drop_bit 16 ip)),
      unat (take_bit 8 (drop_bit 8 ip)), unat (take_bit 8 ip)]"

definition compressed :: "ipv4 \<Rightarrow> string" where
  "compressed ip =
     (case map str_octet (octets ip) of
        [a, b, c, d] \<Rightarrow> a @ ''.'' @ b @ ''.'' @ c @ ''.'' @ d
      | _ \<Rightarrow> [])"

text \<open>The dictionary comprehension of line 180: a later key of the same name replaces the value.\<close>

fun dict_set :: "keydict \<Rightarrow> string \<Rightarrow> string \<times> string \<Rightarrow> keydict" where
  "dict_set [] k v = [(k, v)]"
| "dict_set ((k', v') # d) k v =
     (if k' = k then (k, v) # d else (k', v') # dict_set d k v)"

definition key_dict :: "TSIGKey list \<Rightarrow> keydict" where
  "key_dict keys = foldl (\<lambda>d key. dict_set d (name key) (algorithm key, secret key)) [] keys"

text \<open>The chain of comparisons of lines 211 to 237: the one logger call it makes.\<close>

definition classify :: "Config \<Rightarrow> response \<Rightarrow> event" where
  "classify config r =
     (if rcode r = NOERROR then Log INFO (UpdateSucceeded (rid r))
      else if rcode r = NXDOMAIN then Log ERROR (FailedNXDOMAIN (hostname config))
      else if rcode r = SERVFAIL then Log ERROR (FailedSERVFAIL (hostname config))
      else if rcode r = NOTAUTH then Log ERROR (FailedNOTAUTH (hostname config))
      else if rcode r = NOTZONE then Log ERROR (FailedNOTZONE (hostname config))
      else if rcode r = REFUSED then Log ERROR (FailedREFUSED (hostname config))
      else Log ERROR (FailedUnknown (rcode r) r))"

text \<open>
  Lines 201 to 209: the protocol name is looked up among the attributes of
  \<open>dns.query\<close> and the attribute is called. The argument
  \<open>config.name_server.compressed\<close> is evaluated before the call; a plain string
  has no such attribute.
\<close>

definition exchange :: "env \<Rightarrow> Config \<Rightarrow> update_msg \<Rightarrow> event list \<times> (exn + response)" where
  "exchange e config update =
     (case dns_query e (protocol config) of
        Some query_executor \<Rightarrow>
          (case name_server config of
             NS_Addr a \<Rightarrow>
               ([Query (protocol config) update a (timeout config)],
                query_executor update a (timeout config))
           | _ \<Rightarrow> ([], Inl NoCompressedAttribute))
      | None \<Rightarrow> ([], Inl (UnsupportedProtocol (protocol config))))"

text \<open>The \<open>try\<close> statement of lines 200 to 245; only a \<open>DNSException\<close> is caught.\<close>

definition try_update :: "env \<Rightarrow> Config \<Rightarrow> update_msg \<Rightarrow> event list \<times> outcome" where
  "try_update e config update =
     (case exchange e config update of
        (evs, Inr r) \<Rightarrow>
          (evs @ [classify config r,
                  Log DEBUG (DebugExchange update (name_server config) (rcode r) r)],
           Returned)
      | (evs, Inl x) \<Rightarrow>
          if is_DNSException x
          then (evs @ [Log ERROR (FailedException x),
                       Log DEBUG (DebugFailed update (hostname config) (name_server config))],
                Returned)
          else (evs, Raised x))"

text \<open>
  \<open>main\<close> reads the global \<open>config\<close>; here it is an argument, with the libraries
  and the result of the interface enumeration. Lines 179 to 197 are outside the
  \<open>try\<close>: an exception of the library there leaves \<open>main\<close>.
\<close>

definition main :: "env \<Rightarrow> exn + net_if_addrs \<Rightarrow> Config \<Rightarrow> event list \<times> outcome" where
  "main e psutil config =
     (if name_server config = NS_None \<or> name_server config = NS_Str [] then
        ([Log ERROR NoNameServer], Exit 1)
      else if zone config = [] then ([Log ERROR NoZone], Exit 1)
      else if hostname config = [] then ([Log ERROR NoHostname], Exit 1)
      else if tsig config = [] then ([Log ERROR NoTSIG], Exit 1)
      else
        (case tsigkeyring_from_text e (key_dict (tsig config)) of
           Inl x \<Rightarrow> ([], Raised x)
         | Inr keyring \<Rightarrow>
             (case get_interface_ip psutil (interface config) of
                (evs, None) \<Rightarrow> (evs @ [Log ERROR (NoAddress (interface config))], Exit 1)
              | (evs, Some ip_address) \<Rightarrow>
                  (let announced = evs @ [Log INFO (Updating (hostname config) (zone config) ip_address)]
                   in (case Update_raises e (zone config) keyring of
                         Some x \<Rightarrow> (announced, Raised x)
                       | None \<Rightarrow>
                           (case replace_raises e (Update (zone config) keyring)
                                   (hostname config) (ttl config) ''A'' (compressed ip_address) of
                              Some x \<Rightarrow> (announced, Raised x)
                            | None \<Rightarrow>
                                (let update = replace (Update (zone config) keyring)
                                                (hostname config) (ttl config) ''A''
                                                (compressed ip_address);
                                     (evs', out) = try_update e config update
                                 in (announced @ evs', out))))))))"

section \<open>The script: command line, overrides, zone normalisation\<close>

text \<open>
  The namespace that \<open>parse_args\<close> returns. The command line as typed has the
  same shape, each option present or not.
\<close>

record args =
  a_name_server :: "string option"
  a_zone :: "string option"
  a_hostname :: "string option"
  a_ttl :: "int option"
  a_timeout :: "int option"
  a_protocol :: "string option"
  a_interface :: "string option"
  a_log_level :: "string option"
  a_tsig_name :: "string option"
  a_tsig_algorithm :: "string option"
  a_tsig_secret :: "string option"

definition with_default :: "'a \<Rightarrow> 'a option \<Rightarrow> 'a option" where
  "with_default d v = (case v of None \<Rightarrow> Some d | Some x \<Rightarrow> Some x)"

definition in_choices :: "string list \<Rightarrow> string option \<Rightarrow> bool" where
  "in_choices cs v = (case v of None \<Rightarrow> True | Some x \<Rightarrow> x \<in> set cs)"

text \<open>
  \<open>parse_args\<close>: argparse rejects a value outside an option's \<open>choices\<close> (the
  process exits with status 2, here \<open>None\<close>) and fills in the defaults of
  lines 138 to 155.
\<close>

definition parse_args :: "args \<Rightarrow> args option" where
  "parse_args typed =
     (if in_choices [''tcp'', ''udp''] (a_protocol typed)
         \<and> in_choices [''info'', ''debug''] (a_log_level typed)
         \<and> in_choices [''hmac-sha256'', ''hmac-sha384'', ''hmac-sha512''] (a_tsig_algorithm typed)
      then Some (typed\<lparr>a_ttl := with_default 300 (a_ttl typed),
                       a_timeout := with_default 5 (a_timeout typed),
                       a_protocol := with_default ''udp'' (a_protocol typed),
                       a_log_level := with_default ''info'' (a_log_level typed),
                       a_tsig_algorithm := with_default ''hmac-sha256'' (a_tsig_algorithm typed)\<rparr>)
      else None)"

text \<open>Lines 254 to 277: the command line overrides the configuration file.\<close>

definition override :: "args \<Rightarrow> Config \<Rightarrow> Config" where
  "override a config =
     (let c1 = (case a_name_server a of None \<Rightarrow> config | Some v \<Rightarrow> config\<lparr>name_server := NS_Str v\<rparr>);
          c2 = (case a_zone a of None \<Rightarrow> c1 | Some v \<Rightarrow> c1\<lparr>zone := v\<rparr>);
          c3 = (case a_hostname a of None \<Rightarrow> c2 | Some v \<Rightarrow> c2\<lparr>hostname := v\<rparr>);
          c4 = (case a_ttl a of None \<Rightarrow> c3 | Some v \<Rightarrow> c3\<lparr>ttl := v\<rparr>);
          c5 = (case a_timeout a of None \<Rightarrow> c4 | Some v \<Rightarrow> c4\<lparr>timeout := v\<rparr>);
          c6 = (case a_protocol a of None \<Rightarrow> c5 | Some v \<Rightarrow> c5\<lparr>protocol := v\<rparr>);
          c7 = (case a_interface a of None \<Rightarrow> c6 | Some v \<Rightarrow> c6\<lparr>interface := Some v\<rparr>);
          c8 = (case a_log_level a of None \<Rightarrow> c7 | Some v \<Rightarrow> c7\<lparr>log_level := v\<rparr>)
      in (case (a_tsig_name a, a_tsig_secret a) of
            (Some n, Some s) \<Rightarrow>
              c8\<lparr>tsig := tsig c8 @
                     [\<lparr>name = n,
                       algorithm = (case a_tsig_algorithm a of None \<Rightarrow> [] | Some g \<Rightarrow> g),
                       secret = s\<rparr>]\<rparr>
          | _ \<Rightarrow> c8))"

text \<open>Line 280: a zone that does not end with a dot gets one.\<close>

definition endswith_dot :: "string \<Rightarrow> bool" where
  "endswith_dot s = (s \<noteq> [] \<and> last s = CHR ''.'')"

definition normalize_zone :: "Config \<Rightarrow> Config" where
  "normalize_zone config =
     config\<lparr>zone := (if \<not> endswith_dot (zone config) then zone config @ ''.'' else zone config)\<rparr>"

text \<open>
  \<open>Config()\<close> (line 251). The argument is the value that the settings sources
  give each field: the value of the file, or the default of lines 42 to 64 for a
  field that the file leaves out; for \<open>name_server\<close>, \<open>NS_Str\<close> is a text of the
  file that is not an IP address. The settings class validates every field, the
  defaults too, and raises one \<open>ValidationError\<close> for the fields that fail: a
  key's algorithm outside the three of line 33, a name server that is not an
  address, a zone that does not match the pattern of line 46 (it is empty or
  has a line feed), a protocol or a log level outside the patterns of lines 54
  and 62. A field assigned later (lines 254 to 269) is not validated.
\<close>

definition zone_pattern :: "string \<Rightarrow> bool" where
  "zone_pattern z = (z \<noteq> [] \<and> CHR 0x0A \<notin> set z)"

definition validation_errors :: "Config \<Rightarrow> string list" where
  "validation_errors raw =
     (if list_all (\<lambda>key. algorithm key \<in> set [''hmac-sha256'', ''hmac-sha384'', ''hmac-sha512''])
           (tsig raw)
      then [] else [''tsig''])
     @ (case name_server raw of NS_Str _ \<Rightarrow> [''name_server''] | _ \<Rightarrow> [])
     @ (if zone_pattern (zone raw) then [] else [''zone''])
     @ (if protocol raw \<in> set [''tcp'', ''udp''] then [] else [''protocol''])
     @ (if log_level raw \<in> set [''info'', ''debug''] then [] else [''log_level''])"

definition load_Config :: "Config \<Rightarrow> exn + Config" where
  "load_Config raw =
     (if validation_errors raw = [] then Inr raw
      else Inl (ValidationError (validation_errors raw)))"

text \<open>
  The script (lines 248 to 284), from the options typed and the values of the
  settings sources. An exception of \<open>Config()\<close> ends the run before \<open>main\<close>.
\<close>

definition script :: "env \<Rightarrow> exn + net_if_addrs \<Rightarrow> args \<Rightarrow> Config \<Rightarrow> event list \<times> outcome" where
  "script e psutil typed raw =
     (case parse_args typed of
        None \<Rightarrow> ([], Exit 2)
      | Some a \<Rightarrow>
          (case load_Config raw of
             Inl x \<Rightarrow> ([], Raised x)
           | Inr config \<Rightarrow> main e psutil (normalize_zone (override a config))))"

section \<open>The wire format of the update message\<close>

text \<open>
  Modelled from the spec: a domain name on the wire, whose encoding belongs to
  the DNS library, not to main.py. The spec names the format ("standard DNS
  UPDATE message (RFC 2136)"): a name is its labels in order, the empty root
  label last.
\<close>

type_synonym dname = "string list"

text \<open>
  Modelled from the spec: a resource record of that format: owner name, type,
  class, TTL and the octets of its data.
\<close>

record rr =
  rr_name :: dname
  rr_type :: nat
  rr_class :: nat
  rr_ttl :: nat
  rr_rdata :: "nat list"

text \<open>
  Modelled from the spec: an update message of that format: identifier, flags
  (the operation code is in bits 11 to 14), the one zone with its type and
  class, and the prerequisite, update and additional sections. The signature
  record that the library appends to a signed message is left out.
\<close>

record wire_msg =
  w_id :: nat
  w_flags :: nat
  w_zone :: dname
  w_ztype :: nat
  w_zclass :: nat
  w_prereq :: "rr list"
  w_update :: "rr list"
  w_additional :: "rr list"

text \<open>
  Modelled from the spec: the number of the record type A in the wire format.
\<close>

definition TYPE_A :: nat where "TYPE_A = 1"

text \<open>
  Modelled from the spec: the number of the record type SOA in the wire
  format.
\<close>

definition TYPE_SOA :: nat where "TYPE_SOA = 6"

text \<open>
  Modelled from the spec: the number of the class IN in the wire format.
\<close>

definition CLASS_IN :: nat where "CLASS_IN = 1"

text \<open>
  Modelled from the spec: the number of the class ANY in the wire format.
\<close>

definition CLASS_ANY :: nat where "CLASS_ANY = 255"

text \<open>
  Modelled from the spec: the number of the operation UPDATE in the wire
  format.
\<close>

definition OPCODE_UPDATE :: nat where "OPCODE_UPDATE = 5"

text \<open>
  Modelled from the spec: a 16-bit field of the wire format, written
  big-endian.
\<close>

definition put_u16 :: "nat \<Rightarrow> nat list" where
  "put_u16 n = [n div 256 mod 256, n mod 256]"

text \<open>
  Modelled from the spec: a 32-bit field of the wire format, written
  big-endian.
\<close>

definition put_u32 :: "nat \<Rightarrow> nat list" where
  "put_u32 n = [n div 16777216 mod 256, n div 65536 mod 256, n div 256 mod 256, n mod 256]"

text \<open>
  Modelled from the spec: reading a 16-bit field of the wire format.
\<close>

fun get_u16 :: "nat list \<Rightarrow> (nat \<times> nat list) option" where
  "get_u16 (a # b # rest) = Some (a * 256 + b, rest)"
| "get_u16 _ = None"

text \<open>
  Modelled from the spec: reading a 32-bit field of the wire format.
\<close>

fun get_u32 :: "nat list \<Rightarrow> (nat \<times> nat list) option" where
  "get_u32 (a # b # c # d # rest) = Some (((a * 256 + b) * 256 + c) * 256 + d, rest)"
| "get_u32 _ = None"

text \<open>
  Modelled from the spec: a label of the wire format is written as its length
  and its octets.
\<close>

definition put_label :: "string \<Rightarrow> nat list" where
  "put_label l = length l # map of_char l"

text \<open>
  Modelled from the spec: a name of the wire format is written as its labels,
  the root label last (the octet 0); names are written without compression.
\<close>

definition put_name :: "dname \<Rightarrow> nat list" where
  "put_name ls = concat (map put_label ls)"

text \<open>
  Modelled from the spec: reading a name: labels of 1 to 63 octets up to the
  root label; a compression pointer or a truncated label is refused.
\<close>

function get_name :: "nat list \<Rightarrow> (dname \<times> nat list) option" where
  "get_name [] = None"
| "get_name (n # bs) =
     (if n = 0 then Some ([[]], bs)
      else if 63 < n \<or> length bs < n then None
      else (case get_name (drop n bs) of
              None \<Rightarrow> None
            | Some (ls, rest) \<Rightarrow> Some (map char_of (take n bs) # ls, rest)))"
  by pat_completeness auto
termination
  by (relation "measure length") auto

text \<open>
  Modelled from the spec: a record is written as name, type, class, TTL, data
  length and data.
\<close>

definition put_rr :: "rr \<Rightarrow> nat list" where
  "put_rr r =
     put_name (rr_name r) @ put_u16 (rr_type r) @ put_u16 (rr_class r) @ put_u32 (rr_ttl r)
       @ put_u16 (length (rr_rdata r)) @ rr_rdata r"

text \<open>
  Modelled from the spec: reading one record of the wire format.
\<close>

definition get_rr :: "nat list \<Rightarrow> (rr \<times> nat list) option" where
  "get_rr bs =
     (case get_name bs of None \<Rightarrow> None | Some (n, bs1) \<Rightarrow>
      (case get_u16 bs1 of None \<Rightarrow> None | Some (ty, bs2) \<Rightarrow>
      (case get_u16 bs2 of None \<Rightarrow> None | Some (cl, bs3) \<Rightarrow>
      (case get_u32 bs3 of None \<Rightarrow> None | Some (tt, bs4) \<Rightarrow>
      (case get_u16 bs4 of None \<Rightarrow> None | Some (len, bs5) \<Rightarrow>
         if length bs5 < len then None
         else Some (\<lparr>rr_name = n, rr_type = ty, rr_class = cl, rr_ttl = tt,
                     rr_rdata = take len bs5\<rparr>, drop len bs5))))))"

text \<open>
  Modelled from the spec: reading as many records of the wire format as a
  section count says.
\<close>

fun get_rrs :: "nat \<Rightarrow> nat list \<Rightarrow> (rr list \<times> nat list) option" where
  "get_rrs 0 bs = Some ([], bs)"
| "get_rrs (Suc k) bs =
     (case get_rr bs of None \<Rightarrow> None | Some (r, bs1) \<Rightarrow>
      (case get_rrs k bs1 of None \<Rightarrow> None | Some (rs, bs2) \<Rightarrow> Some (r # rs, bs2)))"

text \<open>
  Modelled from the spec: the message is written as the header of six 16-bit
  fields (identifier, flags, and the counts of the zone, prerequisite, update
  and additional sections), the zone entry and the three sections of records.
\<close>

definition to_wire :: "wire_msg \<Rightarrow> nat list" where
  "to_wire w =
     put_u16 (w_id w) @ put_u16 (w_flags w) @ put_u16 1 @ put_u16 (length (w_prereq w))
       @ put_u16 (length (w_update w)) @ put_u16 (length (w_additional w))
       @ put_name (w_zone w) @ put_u16 (w_ztype w) @ put_u16 (w_zclass w)
       @ concat (map put_rr (w_prereq w)) @ concat (map put_rr (w_update w))
       @ concat (map put_rr (w_additional w))"

text \<open>
  Modelled from the spec: reading a message; it must have exactly one zone and
  no octets after its last record.
\<close>

definition from_wire :: "nat list \<Rightarrow> wire_msg option" where
  "from_wire bs =
     (case get_u16 bs of None \<Rightarrow> None | Some (i, b1) \<Rightarrow>
      (case get_u16 b1 of None \<Rightarrow> None | Some (fl, b2) \<Rightarrow>
      (case get_u16 b2 of None \<Rightarrow> None | Some (zo, b3) \<Rightarrow>
      (case get_u16 b3 of None \<Rightarrow> None | Some (pr, b4) \<Rightarrow>
      (case get_u16 b4 of None \<Rightarrow> None | Some (up, b5) \<Rightarrow>
      (case get_u16 b5 of None \<Rightarrow> None | Some (ad, b6) \<Rightarrow>
         if zo \<noteq> 1 then None else
      (case get_name b6 of None \<Rightarrow> None | Some (z, b7) \<Rightarrow>
      (case get_u16 b7 of None \<Rightarrow> None | Some (zt, b8) \<Rightarrow>
      (case get_u16 b8 of None \<Rightarrow> None | Some (zc, b9) \<Rightarrow>
      (case get_rrs pr b9 of None \<Rightarrow> None | Some (prs, b10) \<Rightarrow>
      (case get_rrs up b10 of None \<Rightarrow> None | Some (ups, b11) \<Rightarrow>
      (case get_rrs ad b11 of None \<Rightarrow> None | Some (ads, b12) \<Rightarrow>
         if b12 \<noteq> [] then None
         else Some \<lparr>w_id = i, w_flags = fl, w_zone = z, w_ztype = zt, w_zclass = zc,
                     w_prereq = prs, w_update = ups, w_additional = ads\<rparr>))))))))))))"

text \<open>
  Modelled from the spec: the name that a text stands for: its labels between
  the dots, \<open>"."\<close> being the root.
\<close>

definition name_of_text :: "string \<Rightarrow> dname" where
  "name_of_text t = (if t = ''.'' then [[]] else split_dot t)"

text \<open>
  Modelled from the spec: what the call \<open>replace(n, t, "A", rd)\<close>
  adds to the update section, "delete any existing A records for hostname
  within zone, then add one A record with the given TTL and address": a record
  of class ANY, TTL 0 and no data, then a record of class IN with the four
  octets of the address. The owner is the host name followed by the labels of
  the zone.
\<close>

fun rrs_of_action :: "string \<Rightarrow> action \<Rightarrow> rr list option" where
  "rrs_of_action z (Replace n t rdtype rd) =
     (if rdtype = ''A'' \<and> 0 \<le> t \<and> t < 4294967296 then
        (case IPv4Address rd of
           Inl _ \<Rightarrow> None
         | Inr ip \<Rightarrow>
             Some [\<lparr>rr_name = split_dot n @ name_of_text z, rr_type = TYPE_A, rr_class = CLASS_ANY,
                     rr_ttl = 0, rr_rdata = []\<rparr>,
                   \<lparr>rr_name = split_dot n @ name_of_text z, rr_type = TYPE_A, rr_class = CLASS_IN,
                     rr_ttl = nat t, rr_rdata = octets ip\<rparr>])
      else None)"

text \<open>
  Modelled from the spec: the message on the wire for the message object that
  main built, with the identifier \<open>mid\<close> that the library chose.
\<close>

definition wire_of :: "nat \<Rightarrow> update_msg \<Rightarrow> wire_msg option" where
  "wire_of mid u =
     (case those (map (rrs_of_action (u_zone u)) (u_actions u)) of
        None \<Rightarrow> None
      | Some rrs \<Rightarrow>
          Some \<lparr>w_id = mid, w_flags = OPCODE_UPDATE * 2048, w_zone = name_of_text (u_zone u),
                 w_ztype = TYPE_SOA, w_zclass = CLASS_IN, w_prereq = [], w_update = concat rrs,
                 w_additional = []\<rparr>)"

text \<open>
  Modelled from the spec: an RRset-replace operation as read back from a
  message: the zone, the owner name, the record type, the TTL and the
  addresses added.
\<close>

record replace_op =
  op_zone :: dname
  op_name :: dname
  op_type :: nat
  op_ttl :: nat
  op_addresses :: "ipv4 list"

text \<open>
  Modelled from the spec: a decoded message is one RRset-replace action when
  it is an update of one SOA zone of class IN without prerequisites whose
  update section deletes the RRset of a name and type and then adds one record
  of four octets with that name and type.
\<close>

definition read_replace :: "wire_msg \<Rightarrow> replace_op option" where
  "read_replace w =
     (if w_flags w div 2048 mod 16 = OPCODE_UPDATE \<and> w_ztype w = TYPE_SOA \<and> w_zclass w = CLASS_IN
         \<and> w_prereq w = [] then
        (case w_update w of
           [d, a] \<Rightarrow>
             if rr_class d = CLASS_ANY \<and> rr_ttl d = 0 \<and> rr_rdata d = []
                \<and> rr_name a = rr_name d \<and> rr_type a = rr_type d \<and> rr_class a = CLASS_IN
             then (case rr_rdata a of
                     [b1, b2, b3, b4] \<Rightarrow>
                       Some \<lparr>op_zone = w_zone w, op_name = rr_name d, op_type = rr_type d,
                              op_ttl = rr_ttl a, op_addresses = [from_octets b1 b2 b3 b4]\<rparr>
                   | _ \<Rightarrow> None)
             else None
         | _ \<Rightarrow> None)
      else None)"

text \<open>
  Modelled from the spec: serialising the message object that main built to
  the octets of the wire format.
\<close>

definition serialize :: "nat \<Rightarrow> update_msg \<Rightarrow> nat list option" where
  "serialize mid u = map_option to_wire (wire_of mid u)"

text \<open>
  Modelled from the spec: decoding the octets of a message of the wire format
  back to the replace operation.
\<close>

definition decode :: "nat list \<Rightarrow> replace_op option" where
  "decode bs = (case from_wire bs of None \<Rightarrow> None | Some w \<Rightarrow> read_replace w)"

text \<open>
  Modelled from the spec: a label that the wire format can carry, of 1 to 63
  octets.
\<close>

definition valid_label :: "string \<Rightarrow> bool" where
  "valid_label l = (l \<noteq> [] \<and> length l \<le> 63)"

text \<open>
  Modelled from the spec: a name text that the DNS library reads label by
  label as it is written: ASCII only (other text is converted to its IDNA
  form), without the escape character, and not \<open>"@"\<close>, which
  stands for the zone itself.
\<close>

definition plain_text :: "string \<Rightarrow> bool" where
  "plain_text t = (t \<noteq> ''@'' \<and> list_all (\<lambda>c. (of_char c :: nat) < 128 \<and> c \<noteq> CHR 0x5C) t)"

text \<open>
  Modelled from the spec: a name that the wire format can carry: valid labels
  and the root label last.
\<close>

definition wf_name :: "dname \<Rightarrow> bool" where
  "wf_name ls = (ls \<noteq> [] \<and> last ls = [] \<and> list_all valid_label (butlast ls))"

text \<open>
  Modelled from the spec: a record whose fields fit the 16 and 32 bits of the
  wire format.
\<close>

definition wf_rr :: "rr \<Rightarrow> bool" where
  "wf_rr r = (wf_name (rr_name r) \<and> rr_type r < 65536 \<and> rr_class r < 65536
              \<and> rr_ttl r < 4294967296 \<and> length (rr_rdata r) < 65536)"

text \<open>
  Modelled from the spec: a message whose fields and section counts fit the
  wire format.
\<close>

definition wf_msg :: "wire_msg \<Rightarrow> bool" where
  "wf_msg w = (w_id w < 65536 \<and> w_flags w < 65536 \<and> wf_name (w_zone w)
               \<and> w_ztype w < 65536 \<and> w_zclass w < 65536
               \<and> list_all wf_rr (w_prereq w) \<and> length (w_prereq w) < 65536
               \<and> list_all wf_rr (w_update w) \<and> length (w_update w) < 65536
               \<and> list_all wf_rr (w_additional w) \<and> length (w_additional w) < 65536)"

section \<open>Predicates of the statements and concrete runs\<close>

text \<open>
  An entry that the loop of lines 120 to 125 passes over: its family is not
  IPv4, or its text is an IPv4 address in one of the three excluded networks.
\<close>

definition skipped :: "snicaddr \<Rightarrow> bool" where
  "skipped a =
     (family a \<noteq> AF_INET \<or>
      (case IPv4Address (address a) of
         Inl _ \<Rightarrow> False
       | Inr ip \<Rightarrow> is_loopback ip \<or> is_link_local ip \<or> is_reserved ip))"

text \<open>The interface that lines 108 to 117 choose, when they choose one.\<close>

definition chosen :: "net_if_addrs \<Rightarrow> string option \<Rightarrow> snicaddr list option" where
  "chosen nia interface_name =
     (case interface_name of None \<Rightarrow> select_special nia | Some n \<Rightarrow> map_of nia n)"

text \<open>The TTLs of the \<open>replace\<close> calls of the messages handed to a transport, in order.\<close>

fun sent_ttls_of :: "event \<Rightarrow> int list" where
  "sent_ttls_of (Query p u a t) = map (\<lambda>x. case x of Replace n tt ty rd \<Rightarrow> tt) (u_actions u)"
| "sent_ttls_of _ = []"

definition sent_ttls :: "event list \<Rightarrow> int list" where
  "sent_ttls evs = concat (map sent_ttls_of evs)"

text \<open>A host with a loopback interface, a wired one and a wireless one.\<close>

definition ex_netif :: "snicaddr list" where
  "ex_netif =
     [\<lparr>family = AF_LINK, address = ''00-11-22-33-44-55''\<rparr>,
      \<lparr>family = AF_INET, address = ''169.254.10.20''\<rparr>,
      \<lparr>family = AF_INET, address = ''203.0.113.7''\<rparr>,
      \<lparr>family = AF_INET, address = ''192.0.2.9''\<rparr>,
      \<lparr>family = AF_INET6, address = ''fe80::1''\<rparr>]"

definition ex_enum :: net_if_addrs where
  "ex_enum =
     [(''lo'', [\<lparr>family = AF_INET, address = ''127.0.0.1''\<rparr>]),
      (''Ethernet'', ex_netif),
      (''WLAN'', [\<lparr>family = AF_INET, address = ''198.51.100.4''\<rparr>])]"

text \<open>A host none of whose interfaces has a name of the list or a usable address.\<close>

definition ex_enum_bare :: net_if_addrs where
  "ex_enum_bare =
     [(''lo'', [\<lparr>family = AF_INET, address = ''127.0.0.1''\<rparr>]),
      (''tun0'', [\<lparr>family = AF_INET6, address = ''fe80::2''\<rparr>,
                  \<lparr>family = AF_INET, address = ''240.0.0.1''\<rparr>])]"

definition ex_key :: TSIGKey where
  "ex_key = \<lparr>name = ''ddns-key.'', algorithm = ''hmac-sha256'', secret = ''c2VjcmV0''\<rparr>"

definition ex_config :: Config where
  "ex_config =
     \<lparr>tsig = [ex_key], name_server = NS_Addr ''192.0.2.53'', zone = ''example.com.'',
      hostname = ''host'', ttl = 300, timeout = 5, protocol = ''udp'',
      interface = None, log_level = ''info''\<rparr>"

text \<open>A server that answers every message with \<open>r\<close>, and an exchange that raises \<open>x\<close>.\<close>

definition answers :: "response \<Rightarrow> executor" where
  "answers r = (\<lambda>update wh t. Inr r)"

definition fails :: "exn \<Rightarrow> executor" where
  "fails x = (\<lambda>update wh t. Inl x)"

text \<open>
  Libraries that accept every key, name and TTL and whose transports all behave
  as \<open>q\<close>. Besides \<open>tcp\<close> and \<open>udp\<close>, the
  module \<open>dns.query\<close> of dnspython 2 has the transports \<open>tls\<close>, \<open>https\<close> and
  \<open>quic\<close> among its attributes.
\<close>

definition lib_env :: "executor \<Rightarrow> env" where
  "lib_env q =
     \<lparr>tsigkeyring_from_text = Inr,
      Update_raises = (\<lambda>z keyring. None),
      replace_raises = (\<lambda>u n t rdtype rd. None),
      dns_query = map_of [(''tcp'', q), (''udp'', q), (''tls'', q), (''https'', q), (''quic'', q)]\<rparr>"

text \<open>A command line without options.\<close>

definition no_options :: args where
  "no_options =
     \<lparr>a_name_server = None, a_zone = None, a_hostname = None, a_ttl = None,
      a_timeout = None, a_protocol = None, a_interface = None, a_log_level = None,
      a_tsig_name = None, a_tsig_algorithm = None, a_tsig_secret = None\<rparr>"


section \<open>Auxiliary facts\<close>

lemmas rcodes = NOERROR_def SERVFAIL_def NXDOMAIN_def REFUSED_def NOTAUTH_def NOTZONE_def

lemma first_usable_Inl: "first_usable netif = Inl x \<Longrightarrow> \<exists>s. x = AddressValueError s"
  by (induction netif) (auto simp: IPv4Address_def split: if_splits sum.splits list.splits option.splits)

lemma first_usable_skip: "list_all skipped pre \<Longrightarrow> first_usable (pre @ rest) = first_usable rest"
  by (induction pre) (auto simp: skipped_def split: sum.splits)

lemma select_special_skip:
  assumes "\<forall>m\<in>fst ` set pre. lower m \<notin> set special_interfaces"
  shows "select_special (pre @ rest) = select_special rest"
  using assms by (induction pre) auto

lemma select_special_None:
  "(\<forall>m\<in>fst ` set nia. lower m \<notin> set special_interfaces) \<Longrightarrow> select_special nia = None"
  by (induction nia) auto

lemma map_of_absent: "n \<notin> fst ` set nia \<Longrightarrow> map_of nia n = None"
  by (simp add: map_of_eq_None_iff)

lemma get_interface_ip_events: "filter is_Query (fst (get_interface_ip psutil iface)) = []"
  by (simp add: get_interface_ip_def split: sum.splits)

lemma main_no_address:
  assumes "snd (get_interface_ip psutil (interface config)) = None"
  shows "snd (main e psutil config) \<noteq> Returned \<and> filter is_Query (fst (main e psutil config)) = []"
proof -
  obtain evs where g: "get_interface_ip psutil (interface config) = (evs, None)"
    using assms by (cases "get_interface_ip psutil (interface config)") auto
  have q: "filter is_Query evs = []"
    using get_interface_ip_events [of psutil "interface config"] g by simp
  show ?thesis
    by (simp add: main_def g q split: sum.splits)
qed

lemma main_abort:
  assumes "snd (get_interface_ip psutil (interface config)) = None"
    and "name_server config \<noteq> NS_None" and "name_server config \<noteq> NS_Str []"
    and "zone config \<noteq> []" and "hostname config \<noteq> []" and "tsig config \<noteq> []"
    and "tsigkeyring_from_text e (key_dict (tsig config)) = Inr keyring"
  shows "main e psutil config =
           (fst (get_interface_ip psutil (interface config)) @ [Log ERROR (NoAddress (interface config))],
            Exit 1)"
proof -
  obtain evs where g: "get_interface_ip psutil (interface config) = (evs, None)"
    using assms(1) by (cases "get_interface_ip psutil (interface config)") auto
  show ?thesis using assms(2-) by (simp add: main_def g)
qed

text \<open>The concrete runs, evaluated.\<close>

lemma ex_select: "select_special ex_enum = Some ex_netif"
  by code_simp

lemma ex_first: "first_usable ex_netif = Inr (Some 0xCB007107)"
  by code_simp

lemma ex_resolve: "get_interface_ip (Inr ex_enum) None = ([], Some 0xCB007107)"
  by (simp add: get_interface_ip_def get_interface_ip_body_def ex_select ex_first)

lemma ex_bare_names: "\<forall>m\<in>fst ` set ex_enum_bare. lower m \<notin> set special_interfaces"
  by code_simp

lemma ex_compressed: "compressed 0xCB007107 = ''203.0.113.7''"
  by code_simp

section \<open>Response classification\<close>

text \<open>
  Claim C1. When the exchange returns a response, the run logs the result of
  the status code and then the debug line. Status NOERROR is logged as a
  success that carries the response's transaction identifier unchanged; each
  of NXDOMAIN, SERVFAIL, NOTAUTH, NOTZONE and REFUSED is logged as an error of
  its own kind, the six results being pairwise different; every other status
  is logged as the unknown error that carries the numeric code and the
  response.
\<close>

theorem rcode_classification:
  assumes "exchange e config update = (evs, Inr r)"
  shows "fst (try_update e config update) =
           evs @ [classify config r, Log DEBUG (DebugExchange update (name_server config) (rcode r) r)]
       \<and> (rcode r = NOERROR \<longrightarrow> classify config r = Log INFO (UpdateSucceeded (rid r)))
       \<and> (rcode r = NXDOMAIN \<longrightarrow> classify config r = Log ERROR (FailedNXDOMAIN (hostname config)))
       \<and> (rcode r = SERVFAIL \<longrightarrow> classify config r = Log ERROR (FailedSERVFAIL (hostname config)))
       \<and> (rcode r = NOTAUTH \<longrightarrow> classify config r = Log ERROR (FailedNOTAUTH (hostname config)))
       \<and> (rcode r = NOTZONE \<longrightarrow> classify config r = Log ERROR (FailedNOTZONE (hostname config)))
       \<and> (rcode r = REFUSED \<longrightarrow> classify config r = Log ERROR (FailedREFUSED (hostname config)))
       \<and> (rcode r \<notin> {NOERROR, NXDOMAIN, SERVFAIL, NOTAUTH, NOTZONE, REFUSED} \<longrightarrow>
            classify config r = Log ERROR (FailedUnknown (rcode r) r))
       \<and> distinct (map (\<lambda>c. classify config (r\<lparr>rcode := c\<rparr>))
                      [NOERROR, NXDOMAIN, SERVFAIL, NOTAUTH, NOTZONE, REFUSED])"
  using assms by (simp add: try_update_def classify_def rcodes)

theorem rcode_classification_witness:
  "map (\<lambda>c. classify ex_config \<lparr>rid = 4660, rcode = c\<rparr>) [0, 3, 2, 9, 10, 5, 1] =
     [Log INFO (UpdateSucceeded 4660), Log ERROR (FailedNXDOMAIN ''host''),
      Log ERROR (FailedSERVFAIL ''host''), Log ERROR (FailedNOTAUTH ''host''),
      Log ERROR (FailedNOTZONE ''host''), Log ERROR (FailedREFUSED ''host''),
      Log ERROR (FailedUnknown 1 \<lparr>rid = 4660, rcode = 1\<rparr>)]"
proof -
  have h: "exchange (lib_env (answers \<lparr>rid = 4660, rcode = c\<rparr>)) ex_config (Update ''example.com.'' []) =
             ([Query ''udp'' (Update ''example.com.'' []) ''192.0.2.53'' 5], Inr \<lparr>rid = 4660, rcode = c\<rparr>)" for c
    by (simp add: exchange_def lib_env_def answers_def ex_config_def)
  have n: "hostname ex_config = ''host''"
    by (simp add: ex_config_def)
  show ?thesis
    using rcode_classification [OF h [of 0]] rcode_classification [OF h [of 3]]
      rcode_classification [OF h [of 2]] rcode_classification [OF h [of 9]]
      rcode_classification [OF h [of 10]] rcode_classification [OF h [of 5]]
      rcode_classification [OF h [of 1]]
    by (simp add: rcodes n)
qed

section \<open>Address resolution\<close>

text \<open>
  Claim C3. On the chosen interface, when the entries before an IPv4 entry are
  all passed over (other families, or loopback, link-local or reserved IPv4
  addresses) and that entry's address is in none of the three networks,
  \<open>get_interface_ip\<close> returns that address, the first such one in list order.
  When every entry of the chosen interface is passed over, it returns \<open>None\<close>
  and no exception has been raised: the interface has no usable address.
  The IPv4 entries that are passed over carry well-formed dotted quads, as
  psutil reports them.
\<close>

theorem first_usable_address:
  "(chosen nia iface = Some (pre @ a # post) \<and> list_all skipped pre
      \<and> family a = AF_INET \<and> IPv4Address (address a) = Inr ip
      \<and> \<not> is_loopback ip \<and> \<not> is_link_local ip \<and> \<not> is_reserved ip \<longrightarrow>
      get_interface_ip (Inr nia) iface = ([], Some ip))
 \<and> (chosen nia' iface' = Some netif' \<and> list_all skipped netif' \<longrightarrow>
      get_interface_ip (Inr nia') iface' = ([], None))"
proof (intro conjI impI)
  have body: "get_interface_ip_body (Inr m) i = first_usable l" if "chosen m i = Some l" for m i l
    using that by (cases i) (simp_all add: get_interface_ip_body_def chosen_def)
  {
    assume h: "chosen nia iface = Some (pre @ a # post) \<and> list_all skipped pre
      \<and> family a = AF_INET \<and> IPv4Address (address a) = Inr ip
      \<and> \<not> is_loopback ip \<and> \<not> is_link_local ip \<and> \<not> is_reserved ip"
    then have "first_usable (pre @ a # post) = first_usable (a # post)"
      by (simp add: first_usable_skip)
    with h have "first_usable (pre @ a # post) = Inr (Some ip)"
      by simp
    with h show "get_interface_ip (Inr nia) iface = ([], Some ip)"
      by (simp add: get_interface_ip_def body)
  }
  {
    assume h: "chosen nia' iface' = Some netif' \<and> list_all skipped netif'"
    then have "first_usable (netif' @ []) = first_usable []"
      by (intro first_usable_skip) simp
    with h show "get_interface_ip (Inr nia') iface' = ([], None)"
      by (simp add: get_interface_ip_def body)
  }
qed

theorem first_usable_address_witness:
  "get_interface_ip (Inr ex_enum) None = ([], Some 0xCB007107)
 \<and> get_interface_ip (Inr ex_enum_bare) (Some ''tun0'') = ([], None)"
proof -
  have 1: "chosen ex_enum None =
             Some ([\<lparr>family = AF_LINK, address = ''00-11-22-33-44-55''\<rparr>,
                    \<lparr>family = AF_INET, address = ''169.254.10.20''\<rparr>]
                   @ \<lparr>family = AF_INET, address = ''203.0.113.7''\<rparr>
                   # [\<lparr>family = AF_INET, address = ''192.0.2.9''\<rparr>,
                      \<lparr>family = AF_INET6, address = ''fe80::1''\<rparr>])"
    by (simp add: chosen_def ex_select) (simp add: ex_netif_def)
  have 2: "list_all skipped [\<lparr>family = AF_LINK, address = ''00-11-22-33-44-55''\<rparr>,
                    \<lparr>family = AF_INET, address = ''169.254.10.20''\<rparr>]"
    by code_simp
  have 3: "IPv4Address ''203.0.113.7'' = Inr 0xCB007107"
    by code_simp
  have 4: "\<not> is_loopback (0xCB007107 :: ipv4) \<and> \<not> is_link_local (0xCB007107 :: ipv4)
            \<and> \<not> is_reserved (0xCB007107 :: ipv4)"
    by code_simp
  have 5: "chosen ex_enum_bare (Some ''tun0'') =
             Some [\<lparr>family = AF_INET6, address = ''fe80::2''\<rparr>,
                   \<lparr>family = AF_INET, address = ''240.0.0.1''\<rparr>]"
    by (simp add: chosen_def ex_enum_bare_def)
  have 6: "list_all skipped [\<lparr>family = AF_INET6, address = ''fe80::2''\<rparr>,
                   \<lparr>family = AF_INET, address = ''240.0.0.1''\<rparr>]"
    by code_simp
  show ?thesis
    using first_usable_address
        [where nia = ex_enum and iface = None
           and pre = "[\<lparr>family = AF_LINK, address = ''00-11-22-33-44-55''\<rparr>,
                       \<lparr>family = AF_INET, address = ''169.254.10.20''\<rparr>]"
           and a = "\<lparr>family = AF_INET, address = ''203.0.113.7''\<rparr>"
           and post = "[\<lparr>family = AF_INET, address = ''192.0.2.9''\<rparr>,
                        \<lparr>family = AF_INET6, address = ''fe80::1''\<rparr>]"
           and ip = "0xCB007107" and nia' = ex_enum_bare and iface' = "Some ''tun0''"
           and netif' = "[\<lparr>family = AF_INET6, address = ''fe80::2''\<rparr>,
                          \<lparr>family = AF_INET, address = ''240.0.0.1''\<rparr>]"]
      1 2 3 4 5 6
    by simp
qed

text \<open>
  Claim C4. When the interface named by the caller is not a key of the
  enumeration, the lookup raises the error of line 116, which names the
  interface; \<open>get_interface_ip\<close> logs it and returns \<open>None\<close>, whatever the other
  interfaces are and whatever addresses they have. No other path of the
  function raises that error on an enumeration that succeeded.
\<close>

theorem absent_interface_not_found:
  "(n \<notin> fst ` set nia \<longrightarrow>
      get_interface_ip_body (Inr nia) (Some n) = Inl (InterfaceNotFound n)
    \<and> get_interface_ip (Inr nia) (Some n) = ([Log ERROR (ResolveFailed (InterfaceNotFound n))], None))
 \<and> (get_interface_ip_body (Inr nia) iface = Inl (InterfaceNotFound m) \<longrightarrow>
      iface = Some m \<and> m \<notin> fst ` set nia)"
proof (intro conjI impI)
  assume a: "n \<notin> fst ` set nia"
  show b: "get_interface_ip_body (Inr nia) (Some n) = Inl (InterfaceNotFound n)"
    by (simp add: get_interface_ip_body_def map_of_absent [OF a])
  show "get_interface_ip (Inr nia) (Some n) = ([Log ERROR (ResolveFailed (InterfaceNotFound n))], None)"
    by (simp add: get_interface_ip_def b)
next
  assume a: "get_interface_ip_body (Inr nia) iface = Inl (InterfaceNotFound m)"
  show "iface = Some m"
    using a by (auto simp: get_interface_ip_body_def split: option.splits dest: first_usable_Inl)
  show "m \<notin> fst ` set nia"
    using a by (auto simp: get_interface_ip_body_def map_of_eq_None_iff split: option.splits dest: first_usable_Inl)
qed

theorem absent_interface_not_found_witness:
  "''wlan'' \<notin> fst ` set ex_enum
 \<and> get_interface_ip (Inr ex_enum) (Some ''wlan'') =
     ([Log ERROR (ResolveFailed (InterfaceNotFound ''wlan''))], None)"
proof -
  have h: "''wlan'' \<notin> fst ` set ex_enum"
    by (simp add: ex_enum_def)
  show ?thesis
    using h absent_interface_not_found [of "''wlan''" ex_enum "Some ''wlan''" "''wlan''"]
    by simp
qed

text \<open>
  Claim C5. Without an interface name, the interface used is the first one in
  enumeration order whose lowered name is in \<open>special_interfaces\<close>: the
  interfaces before it have names outside the list. When no interface has
  such a name, the resolution fails (the unassigned \<open>netif\<close> raises, the function
  logs it and returns \<open>None\<close>), and \<open>main\<close> does not return normally and calls
  no transport.
\<close>

theorem heuristic_first_match:
  "(nia = pre @ (n, addrs) # post \<and> (\<forall>m\<in>fst ` set pre. lower m \<notin> set special_interfaces)
      \<and> lower n \<in> set special_interfaces \<longrightarrow>
      get_interface_ip_body (Inr nia) None = first_usable addrs)
 \<and> ((\<forall>m\<in>fst ` set nia'. lower m \<notin> set special_interfaces) \<longrightarrow>
      get_interface_ip (Inr nia') None = ([Log ERROR (ResolveFailed NetifUnbound)], None)
    \<and> (interface config = None \<longrightarrow>
          snd (main e (Inr nia') config) \<noteq> Returned
        \<and> filter is_Query (fst (main e (Inr nia') config)) = []))"
proof (intro conjI impI)
  assume "nia = pre @ (n, addrs) # post \<and> (\<forall>m\<in>fst ` set pre. lower m \<notin> set special_interfaces)
      \<and> lower n \<in> set special_interfaces"
  then show "get_interface_ip_body (Inr nia) None = first_usable addrs"
    by (simp add: get_interface_ip_body_def select_special_skip)
next
  assume a: "\<forall>m\<in>fst ` set nia'. lower m \<notin> set special_interfaces"
  show g: "get_interface_ip (Inr nia') None = ([Log ERROR (ResolveFailed NetifUnbound)], None)"
    by (simp add: get_interface_ip_def get_interface_ip_body_def select_special_None [OF a])
  assume i: "interface config = None"
  have "snd (get_interface_ip (Inr nia') (interface config)) = None"
    by (simp add: i g)
  from main_no_address [OF this]
  show "snd (main e (Inr nia') config) \<noteq> Returned" 
    and "filter is_Query (fst (main e (Inr nia') config)) = []" by simp_all
qed

theorem heuristic_first_match_witness:
  "get_interface_ip_body (Inr ex_enum) None = first_usable ex_netif
 \<and> get_interface_ip (Inr ex_enum_bare) None = ([Log ERROR (ResolveFailed NetifUnbound)], None)
 \<and> snd (main (lib_env (answers \<lparr>rid = 1, rcode = 0\<rparr>)) (Inr ex_enum_bare) ex_config) \<noteq> Returned
 \<and> filter is_Query (fst (main (lib_env (answers \<lparr>rid = 1, rcode = 0\<rparr>)) (Inr ex_enum_bare) ex_config)) = []"
proof -
  have 1: "ex_enum = [(''lo'', [\<lparr>family = AF_INET, address = ''127.0.0.1''\<rparr>])]
             @ (''Ethernet'', ex_netif) # [(''WLAN'', [\<lparr>family = AF_INET, address = ''198.51.100.4''\<rparr>])]"
    by (simp add: ex_enum_def)
  have 2: "\<forall>m\<in>fst ` set [(''lo'', [\<lparr>family = AF_INET, address = ''127.0.0.1''\<rparr>])].
             lower m \<notin> set special_interfaces"
    by code_simp
  have 3: "lower ''Ethernet'' \<in> set special_interfaces"
    by code_simp
  have 4: "interface ex_config = None"
    by (simp add: ex_config_def)
  show ?thesis
    using heuristic_first_match
        [where nia = ex_enum and pre = "[(''lo'', [\<lparr>family = AF_INET, address = ''127.0.0.1''\<rparr>])]"
           and n = "''Ethernet''" and addrs = ex_netif
           and post = "[(''WLAN'', [\<lparr>family = AF_INET, address = ''198.51.100.4''\<rparr>])]"
           and nia' = ex_enum_bare and config = ex_config
           and e = "lib_env (answers \<lparr>rid = 1, rcode = 0\<rparr>)"]
      1 2 3 4 ex_bare_names
    by simp
qed



section \<open>The exchange\<close>

lemma try_update_queries: "length (filter is_Query (fst (try_update e config update))) \<le> 1"
  by (simp add: try_update_def exchange_def classify_def split: option.splits ns_value.splits sum.splits)

lemma main_queries:
  "filter is_Query (fst (main e psutil config)) = [] \<or>
   (\<exists>keyring ip. tsigkeyring_from_text e (key_dict (tsig config)) = Inr keyring
      \<and> snd (get_interface_ip psutil (interface config)) = Some ip
      \<and> filter is_Query (fst (main e psutil config)) =
          filter is_Query (fst (try_update e config
             (replace (Update (zone config) keyring) (hostname config) (ttl config) ''A'' (compressed ip)))))"
proof (cases "get_interface_ip psutil (interface config)")
  case (Pair evs r)
  have q: "filter is_Query evs = []"
    using get_interface_ip_events [of psutil "interface config"] Pair by simp
  show ?thesis
    by (cases r) (auto simp: main_def Pair q Let_def split: sum.splits prod.splits option.splits)
qed

lemma main_one_query: "length (filter is_Query (fst (main e psutil config))) \<le> 1"
  using main_queries [of e psutil config] try_update_queries by auto

text \<open>
  Claim C6. When the transport called raises, the run has called exactly one
  transport, once, and logs none of the results of a status code. A DNS
  exception (timeout, malformed or unverifiable response, failed signature) is
  logged as the error of line 242 and \<open>main\<close> returns; any other exception
  (a refused connection is an \<open>OSError\<close>) is not caught and leaves \<open>main\<close>
  after that one call. No run of \<open>main\<close> calls a transport more than once.
\<close>

theorem transport_failure:
  assumes "dns_query e (protocol config) = Some q" and "name_server config = NS_Addr a"
    and "q update a (timeout config) = Inl x"
  shows "filter is_Query (fst (try_update e config update)) =
           [Query (protocol config) update a (timeout config)]
       \<and> (\<forall>r. classify config r \<notin> set (fst (try_update e config update)))
       \<and> (is_DNSException x \<longrightarrow>
            try_update e config update =
              ([Query (protocol config) update a (timeout config),
                Log ERROR (FailedException x),
                Log DEBUG (DebugFailed update (hostname config) (name_server config))], Returned))
       \<and> (\<not> is_DNSException x \<longrightarrow>
            try_update e config update =
              ([Query (protocol config) update a (timeout config)], Raised x))
       \<and> length (filter is_Query (fst (main e' psutil' config'))) \<le> 1"
proof -
  have ex: "exchange e config update =
              ([Query (protocol config) update a (timeout config)], Inl x)"
    using assms by (simp add: exchange_def)
  have c: "classify config r \<noteq> Query p u w t \<and> classify config r \<noteq> Log ERROR (FailedException y)
            \<and> classify config r \<noteq> Log DEBUG m" for r p u w t y m
    by (simp add: classify_def)
  show ?thesis
    using main_one_query [of e' psutil' config']
    by (cases "is_DNSException x") (simp_all add: try_update_def ex c)
qed

theorem transport_failure_witness:
  "try_update (lib_env (fails (DNSException ''Timeout''))) ex_config (Update ''example.com.'' []) =
     ([Query ''udp'' (Update ''example.com.'' []) ''192.0.2.53'' 5,
       Log ERROR (FailedException (DNSException ''Timeout'')),
       Log DEBUG (DebugFailed (Update ''example.com.'' []) ''host'' (NS_Addr ''192.0.2.53''))], Returned)
 \<and> try_update (lib_env (fails (OtherError ''ConnectionRefusedError''))) ex_config (Update ''example.com.'' []) =
     ([Query ''udp'' (Update ''example.com.'' []) ''192.0.2.53'' 5],
      Raised (OtherError ''ConnectionRefusedError''))"
proof -
  have 1: "dns_query (lib_env (fails x)) (protocol ex_config) = Some (fails x)" for x
    by (simp add: lib_env_def ex_config_def)
  have 2: "name_server ex_config = NS_Addr ''192.0.2.53''"
    by (simp add: ex_config_def)
  have 3: "fails x u ''192.0.2.53'' (timeout ex_config) = Inl x" for x u
    by (simp add: fails_def)
  have 4: "protocol ex_config = ''udp''" "timeout ex_config = 5" "hostname ex_config = ''host''"
    by (simp_all add: ex_config_def)
  show ?thesis
    using transport_failure [OF 1 2 3, of "DNSException ''Timeout''" "Update ''example.com.'' []"]
      transport_failure [OF 1 2 3, of "OtherError ''ConnectionRefusedError''" "Update ''example.com.'' []"]
    by (simp add: 2 4)
qed

lemmas run_defs = script_def parse_args_def in_choices_def with_default_def no_options_def
      load_Config_def validation_errors_def zone_pattern_def
      override_def normalize_zone_def endswith_dot_def ex_config_def main_def ex_resolve
      lib_env_def key_dict_def ex_key_def Update_def replace_def ex_compressed
      try_update_def exchange_def answers_def classify_def rcodes Let_def

text \<open>
  A settings file without a zone does not reach \<open>main\<close>: the default zone fails
  its pattern and \<open>Config()\<close> raises.
\<close>

lemma zone_left_out_of_file:
  "script (lib_env (answers \<lparr>rid = 4660, rcode = 0\<rparr>)) (Inr ex_enum) no_options (ex_config\<lparr>zone := []\<rparr>) =
     ([], Raised (ValidationError [''zone'']))"
  by (simp add: run_defs)

text \<open>
  No run of the script reaches \<open>main\<close> with an empty zone: the test of line 168
  cannot fail there.
\<close>

lemma script_zone_not_empty: "zone (normalize_zone config) \<noteq> []"
  by (simp add: normalize_zone_def endswith_dot_def)

text \<open>
  Claim C7. A run of the script with the option \<open>--zone ""\<close>, the configuration
  being complete otherwise: the empty zone is assigned without validation,
  line 280 turns it into \<open>"."\<close> before \<open>main\<close> tests \<open>config.zone == ""\<close>, so the
  test of line 168 passes and the update is sent for the zone \<open>"."\<close> instead
  of the run stopping before the exchange.
\<close>

theorem missing_zone_is_sent:
  "script (lib_env (answers \<lparr>rid = 4660, rcode = 0\<rparr>)) (Inr ex_enum)
     (no_options\<lparr>a_zone := Some []\<rparr>) ex_config =
     ([Log INFO (Updating ''host'' ''.'' 0xCB007107),
       Query ''udp''
         \<lparr>u_zone = ''.'', u_keyring = [(''ddns-key.'', ''hmac-sha256'', ''c2VjcmV0'')],
          u_actions = [Replace ''host'' 300 ''A'' ''203.0.113.7'']\<rparr> ''192.0.2.53'' 5,
       Log INFO (UpdateSucceeded 4660),
       Log DEBUG (DebugExchange
         \<lparr>u_zone = ''.'', u_keyring = [(''ddns-key.'', ''hmac-sha256'', ''c2VjcmV0'')],
          u_actions = [Replace ''host'' 300 ''A'' ''203.0.113.7'']\<rparr>
         (NS_Addr ''192.0.2.53'') 0 \<lparr>rid = 4660, rcode = 0\<rparr>)],
      Returned)"
  by (simp add: run_defs)

text \<open>
  Claim C8, as stated, fails: the protocol \<open>tls\<close> is neither \<open>tcp\<close> nor
  \<open>udp\<close>, it is an attribute of the query module, and \<open>main\<close> calls it.
\<close>

theorem reflective_dispatch_counterexample:
  "''tls'' \<notin> {''tcp'', ''udp''}
 \<and> main (lib_env (answers \<lparr>rid = 4660, rcode = 0\<rparr>)) (Inr ex_enum) (ex_config\<lparr>protocol := ''tls''\<rparr>) =
     ([Log INFO (Updating ''host'' ''example.com.'' 0xCB007107),
       Query ''tls''
         \<lparr>u_zone = ''example.com.'', u_keyring = [(''ddns-key.'', ''hmac-sha256'', ''c2VjcmV0'')],
          u_actions = [Replace ''host'' 300 ''A'' ''203.0.113.7'']\<rparr> ''192.0.2.53'' 5,
       Log INFO (UpdateSucceeded 4660),
       Log DEBUG (DebugExchange
         \<lparr>u_zone = ''example.com.'', u_keyring = [(''ddns-key.'', ''hmac-sha256'', ''c2VjcmV0'')],
          u_actions = [Replace ''host'' 300 ''A'' ''203.0.113.7'']\<rparr>
         (NS_Addr ''192.0.2.53'') 0 \<lparr>rid = 4660, rcode = 0\<rparr>)],
      Returned)"
  by (simp add: run_defs)

text \<open>
  Claim C8, amended. The transport is found by looking the protocol string up
  among the attributes of the query module. A string that is not an attribute
  raises the unsupported-protocol error before any transport is called; a
  string that is one has that attribute called once with the message, the
  server's address and the timeout. The command line admits only \<open>tcp\<close> and
  \<open>udp\<close>, so the script hands \<open>main\<close> one of these two.
\<close>

theorem transport_lookup:
  "(dns_query e (protocol config) = None \<longrightarrow>
      try_update e config update = ([], Raised (UnsupportedProtocol (protocol config))))
 \<and> (dns_query e' (protocol config') = Some q \<and> name_server config' = NS_Addr a \<longrightarrow>
      exchange e' config' update' =
        ([Query (protocol config') update' a (timeout config')], q update' a (timeout config')))
 \<and> (parse_args typed = Some parsed \<longrightarrow>
      protocol (normalize_zone (override parsed file_config)) \<in> {''tcp'', ''udp''})"
proof (intro conjI impI)
  assume "dns_query e (protocol config) = None"
  then show "try_update e config update = ([], Raised (UnsupportedProtocol (protocol config)))"
    by (simp add: try_update_def exchange_def)
next
  assume "dns_query e' (protocol config') = Some q \<and> name_server config' = NS_Addr a"
  then show "exchange e' config' update' =
        ([Query (protocol config') update' a (timeout config')], q update' a (timeout config'))"
    by (simp add: exchange_def)
next
  assume p: "parse_args typed = Some parsed"
  then obtain v where v: "a_protocol parsed = Some v" "v \<in> {''tcp'', ''udp''}"
    by (cases "a_protocol typed")
       (auto simp: parse_args_def in_choices_def with_default_def split: if_splits)
  have "protocol (override parsed file_config) = v"
    using v(1) by (simp add: override_def Let_def split: option.splits)
  then show "protocol (normalize_zone (override parsed file_config)) \<in> {''tcp'', ''udp''}"
    using v(2) by (simp add: normalize_zone_def)
qed

theorem transport_lookup_witness:
  "try_update (lib_env (answers \<lparr>rid = 4660, rcode = 0\<rparr>)) (ex_config\<lparr>protocol := ''sctp''\<rparr>)
      (Update ''example.com.'' []) = ([], Raised (UnsupportedProtocol ''sctp''))
 \<and> exchange (lib_env (answers \<lparr>rid = 4660, rcode = 0\<rparr>)) (ex_config\<lparr>protocol := ''tcp''\<rparr>)
      (Update ''example.com.'' []) =
      ([Query ''tcp'' (Update ''example.com.'' []) ''192.0.2.53'' 5], Inr \<lparr>rid = 4660, rcode = 0\<rparr>)
 \<and> protocol (normalize_zone (override
       (the (parse_args (no_options\<lparr>a_protocol := Some ''tcp''\<rparr>))) ex_config)) \<in> {''tcp'', ''udp''}"
proof -
  let ?e = "lib_env (answers \<lparr>rid = 4660, rcode = 0\<rparr>)"
  have 1: "dns_query ?e (protocol (ex_config\<lparr>protocol := ''sctp''\<rparr>)) = None"
    by (simp add: lib_env_def)
  have 2: "dns_query ?e (protocol (ex_config\<lparr>protocol := ''tcp''\<rparr>)) = Some (answers \<lparr>rid = 4660, rcode = 0\<rparr>)
           \<and> name_server (ex_config\<lparr>protocol := ''tcp''\<rparr>) = NS_Addr ''192.0.2.53''"
    by (simp add: lib_env_def ex_config_def)
  have 3: "parse_args (no_options\<lparr>a_protocol := Some ''tcp''\<rparr>) =
             Some (the (parse_args (no_options\<lparr>a_protocol := Some ''tcp''\<rparr>)))"
    by (simp add: parse_args_def in_choices_def no_options_def)
  have 4: "timeout ex_config = 5"
    by (simp add: ex_config_def)
  show ?thesis
    using transport_lookup
      [where e = ?e and config = "ex_config\<lparr>protocol := ''sctp''\<rparr>"
         and update = "Update ''example.com.'' []"
         and e' = ?e and config' = "ex_config\<lparr>protocol := ''tcp''\<rparr>"
         and q = "answers \<lparr>rid = 4660, rcode = 0\<rparr>" and a = "''192.0.2.53''"
         and update' = "Update ''example.com.'' []"
         and typed = "no_options\<lparr>a_protocol := Some ''tcp''\<rparr>"
         and parsed = "the (parse_args (no_options\<lparr>a_protocol := Some ''tcp''\<rparr>))"
         and file_config = ex_config]
      1 2 3
    by (simp add: answers_def 4)
qed

text \<open>
  Claim C9, as stated, fails: with \<open>--ttl 0\<close> the configuration passes the
  precondition checks and the message sent carries the TTL 0.
\<close>

theorem zero_ttl_counterexample:
  "sent_ttls (fst (script (lib_env (answers \<lparr>rid = 4660, rcode = 0\<rparr>)) (Inr ex_enum)
      (no_options\<lparr>a_ttl := Some 0\<rparr>) ex_config)) = [0]"
  by (simp add: run_defs sent_ttls_def)

lemma sent_ttls_simps:
  "sent_ttls [] = []"
  "sent_ttls (Log l m # xs) = sent_ttls xs"
  "sent_ttls (xs @ ys) = sent_ttls xs @ sent_ttls ys"
  by (simp_all add: sent_ttls_def)

lemma try_update_ttls:
  "sent_ttls (fst (try_update e config u)) = [] \<or>
   sent_ttls (fst (try_update e config u)) =
     map (\<lambda>x. case x of Replace n tt ty rd \<Rightarrow> tt) (u_actions u)"
  by (simp add: try_update_def exchange_def classify_def sent_ttls_def
      split: option.splits ns_value.splits sum.splits)

lemma get_interface_ip_ttls: "sent_ttls (fst (get_interface_ip psutil iface)) = []"
  by (simp add: get_interface_ip_def sent_ttls_def split: sum.splits)

lemma main_ttls:
  "sent_ttls (fst (main e psutil config)) = [] \<or> sent_ttls (fst (main e psutil config)) = [ttl config]"
proof (cases "get_interface_ip psutil (interface config)")
  case (Pair evs r)
  have q: "sent_ttls evs = []"
    using get_interface_ip_ttls [of psutil "interface config"] Pair by simp
  show ?thesis
  proof (cases r)
    case None
    then show ?thesis
      by (simp add: main_def Pair q sent_ttls_simps split: sum.splits)
  next
    case (Some ip)
    show ?thesis
    proof (cases "name_server config = NS_None \<or> name_server config = NS_Str []
                   \<or> zone config = [] \<or> hostname config = [] \<or> tsig config = []")
      case True
      then show ?thesis
        by (auto simp: main_def sent_ttls_simps)
    next
      case False
      show ?thesis
      proof (cases "tsigkeyring_from_text e (key_dict (tsig config))")
        case (Inl x)
        then show ?thesis
          using False by (simp add: main_def sent_ttls_simps)
      next
        case (Inr k)
        let ?u = "replace (Update (zone config) k) (hostname config) (ttl config) ''A'' (compressed ip)"
        have "sent_ttls (fst (main e psutil config)) = [] \<or>
              fst (main e psutil config) =
                evs @ [Log INFO (Updating (hostname config) (zone config) ip)] @ fst (try_update e config ?u)"
          using False
          by (simp add: main_def Inr Pair Some Let_def sent_ttls_simps q split: prod.splits option.splits)
        then have "sent_ttls (fst (main e psutil config)) = [] \<or>
              sent_ttls (fst (main e psutil config)) = sent_ttls (fst (try_update e config ?u))"
          by (auto simp: sent_ttls_simps q)
        then show ?thesis
          using try_update_ttls [of e config ?u] by (auto simp: replace_def Update_def)
      qed
    qed
  qed
qed

text \<open>
  Claim C9, amended. A run of \<open>main\<close> sends at most one \<open>replace\<close>, and its TTL
  is \<open>config.ttl\<close> unchanged; no check is made on it. It is positive when the
  configured TTL is positive.
\<close>

theorem ttl_unchanged:
  "(sent_ttls (fst (main e psutil config)) = [] \<or> sent_ttls (fst (main e psutil config)) = [ttl config])
 \<and> (0 < ttl config \<longrightarrow> (\<forall>t\<in>set (sent_ttls (fst (main e psutil config))). 0 < t))"
  using main_ttls [of e psutil config] by auto

theorem ttl_unchanged_witness:
  "sent_ttls (fst (main (lib_env (answers \<lparr>rid = 4660, rcode = 0\<rparr>)) (Inr ex_enum) ex_config)) = [300]"
proof -
  have 1: "(0::int) < ttl ex_config" "ttl ex_config = 300"
    by (simp_all add: ex_config_def)
  have 2: "sent_ttls (fst (main (lib_env (answers \<lparr>rid = 4660, rcode = 0\<rparr>)) (Inr ex_enum) ex_config)) \<noteq> []"
    by (simp add: run_defs sent_ttls_def)
  show ?thesis
    using ttl_unchanged [of "lib_env (answers \<lparr>rid = 4660, rcode = 0\<rparr>)" "Inr ex_enum" ex_config] 1 2
    by simp
qed

text \<open>
  Claim C10. Every exception raised in the body of \<open>get_interface_ip\<close> is
  caught there: the function logs it and returns \<open>None\<close>. This covers an
  enumeration that raises, a named interface that is absent, and no name with
  no interface of the list. Whatever made the function return \<open>None\<close>, a
  \<open>main\<close> that has passed its precondition checks does the same: it logs the
  error of line 186 and exits with status 1.
\<close>

theorem get_interface_ip_total:
  "(get_interface_ip_body psutil iface = Inl x \<longrightarrow>
      get_interface_ip psutil iface = ([Log ERROR (ResolveFailed x)], None))
 \<and> get_interface_ip (Inl x') iface' = ([Log ERROR (ResolveFailed x')], None)
 \<and> (n \<notin> fst ` set nia \<longrightarrow>
      get_interface_ip (Inr nia) (Some n) = ([Log ERROR (ResolveFailed (InterfaceNotFound n))], None))
 \<and> ((\<forall>m\<in>fst ` set nia'. lower m \<notin> set special_interfaces) \<longrightarrow>
      get_interface_ip (Inr nia') None = ([Log ERROR (ResolveFailed NetifUnbound)], None))
 \<and> (snd (get_interface_ip psutil' (interface config)) = None
      \<and> name_server config \<noteq> NS_None \<and> name_server config \<noteq> NS_Str []
      \<and> zone config \<noteq> [] \<and> hostname config \<noteq> [] \<and> tsig config \<noteq> []
      \<and> tsigkeyring_from_text e (key_dict (tsig config)) = Inr keyring \<longrightarrow>
      main e psutil' config =
        (fst (get_interface_ip psutil' (interface config)) @ [Log ERROR (NoAddress (interface config))],
         Exit 1))"
proof (intro conjI impI)
  show "get_interface_ip (Inl x') iface' = ([Log ERROR (ResolveFailed x')], None)"
    by (simp add: get_interface_ip_def get_interface_ip_body_def)
next
  assume "get_interface_ip_body psutil iface = Inl x"
  then show "get_interface_ip psutil iface = ([Log ERROR (ResolveFailed x)], None)"
    by (simp add: get_interface_ip_def)
next
  assume "n \<notin> fst ` set nia"
  then show "get_interface_ip (Inr nia) (Some n) = ([Log ERROR (ResolveFailed (InterfaceNotFound n))], None)"
    by (simp add: get_interface_ip_def get_interface_ip_body_def map_of_absent)
next
  assume "\<forall>m\<in>fst ` set nia'. lower m \<notin> set special_interfaces"
  then show "get_interface_ip (Inr nia') None = ([Log ERROR (ResolveFailed NetifUnbound)], None)"
    by (simp add: get_interface_ip_def get_interface_ip_body_def select_special_None)
next
  assume "snd (get_interface_ip psutil' (interface config)) = None
      \<and> name_server config \<noteq> NS_None \<and> name_server config \<noteq> NS_Str []
      \<and> zone config \<noteq> [] \<and> hostname config \<noteq> [] \<and> tsig config \<noteq> []
      \<and> tsigkeyring_from_text e (key_dict (tsig config)) = Inr keyring"
  then show "main e psutil' config =
        (fst (get_interface_ip psutil' (interface config)) @ [Log ERROR (NoAddress (interface config))],
         Exit 1)"
    by (intro main_abort) auto
qed

theorem get_interface_ip_total_witness:
  "get_interface_ip (Inl (OtherError ''AccessDenied'')) None =
     ([Log ERROR (ResolveFailed (OtherError ''AccessDenied''))], None)
 \<and> get_interface_ip (Inr ex_enum) (Some ''wlan'') =
     ([Log ERROR (ResolveFailed (InterfaceNotFound ''wlan''))], None)
 \<and> get_interface_ip (Inr ex_enum_bare) None = ([Log ERROR (ResolveFailed NetifUnbound)], None)
 \<and> main (lib_env (answers \<lparr>rid = 1, rcode = 0\<rparr>)) (Inr ex_enum_bare) ex_config =
     ([Log ERROR (ResolveFailed NetifUnbound), Log ERROR (NoAddress None)], Exit 1)"
proof -
  let ?e = "lib_env (answers \<lparr>rid = 1, rcode = 0\<rparr>)"
  have 1: "get_interface_ip_body (Inl (OtherError ''AccessDenied'')) None = Inl (OtherError ''AccessDenied'')"
    by (simp add: get_interface_ip_body_def)
  have 2: "''wlan'' \<notin> fst ` set ex_enum"
    by (simp add: ex_enum_def)
  have 3: "name_server ex_config \<noteq> NS_None \<and> name_server ex_config \<noteq> NS_Str []
      \<and> zone ex_config \<noteq> [] \<and> hostname ex_config \<noteq> [] \<and> tsig ex_config \<noteq> []
      \<and> tsigkeyring_from_text ?e (key_dict (tsig ex_config)) = Inr (key_dict (tsig ex_config))
      \<and> interface ex_config = None"
    by (simp add: ex_config_def lib_env_def)
  have 4: "get_interface_ip (Inr ex_enum_bare) None = ([Log ERROR (ResolveFailed NetifUnbound)], None)
           \<Longrightarrow> snd (get_interface_ip (Inr ex_enum_bare) (interface ex_config)) = None"
    using 3 by simp
  show ?thesis
    using get_interface_ip_total
      [where psutil = "Inl (OtherError ''AccessDenied'')" and iface = None
         and x = "OtherError ''AccessDenied''" and x' = "OtherError ''AccessDenied''" and iface' = None
         and n = "''wlan''" and nia = ex_enum and nia' = ex_enum_bare
         and psutil' = "Inr ex_enum_bare" and config = ex_config and e = ?e
         and keyring = "key_dict (tsig ex_config)"]
      1 2 3 4 ex_bare_names
    by auto
qed


section \<open>The update message\<close>

lemma get_put_u16: "n < 65536 \<Longrightarrow> get_u16 (put_u16 n @ rest) = Some (n, rest)"
  by (simp add: put_u16_def)

lemma get_put_u32: "n < 4294967296 \<Longrightarrow> get_u32 (put_u32 n @ rest) = Some (n, rest)"
proof -
  assume n: "n < 4294967296"
  have 1: "n div 65536 = n div 256 div 256" "n div 16777216 = n div 256 div 256 div 256"
    by (simp_all add: div_mult2_eq)
  have 2: "n div 256 div 256 div 256 mod 256 = n div 256 div 256 div 256"
    using n by (simp add: div_mult2_eq)
  show ?thesis
    by (simp add: put_u32_def 1 2)
qed

lemma get_put_labels:
  "list_all valid_label ls \<Longrightarrow>
   get_name (concat (map put_label ls) @ 0 # rest) = Some (ls @ [[]], rest)"
proof (induction ls)
  case Nil
  show ?case by simp
next
  case (Cons l ls)
  from Cons.prems have l: "l \<noteq> []" "length l \<le> 63"
    by (simp_all add: valid_label_def)
  from Cons.prems have ls: "list_all valid_label ls"
    by simp
  have "map char_of (map (of_char :: char \<Rightarrow> nat) l) = l"
    by (simp add: comp_def)
  then show ?case
    using l Cons.IH [OF ls] by (simp add: put_label_def)
qed

lemma get_put_name: "wf_name n \<Longrightarrow> get_name (put_name n @ rest) = Some (n, rest)"
proof -
  assume w: "wf_name n"
  then have n: "n = butlast n @ [[]]"
    by (metis wf_name_def append_butlast_last_id)
  have "put_name n = concat (map put_label (butlast n)) @ [0]"
    by (subst n) (simp add: put_name_def put_label_def)
  then show ?thesis
    using get_put_labels [of "butlast n" rest] w n by (simp add: wf_name_def)
qed

lemma get_put_rr: "wf_rr r \<Longrightarrow> get_rr (put_rr r @ rest) = Some (r, rest)"
  by (simp add: wf_rr_def get_rr_def put_rr_def get_put_name get_put_u16 get_put_u32)

lemma get_put_rrs:
  "list_all wf_rr rs \<Longrightarrow> get_rrs (length rs) (concat (map put_rr rs) @ rest) = Some (rs, rest)"
  by (induction rs) (simp_all add: get_put_rr)


lemma get_put_rrs_end:
  "list_all wf_rr rs \<Longrightarrow> get_rrs (length rs) (concat (map put_rr rs)) = Some (rs, [])"
  using get_put_rrs [of rs "[]"] by simp

lemma from_to_wire: "wf_msg w \<Longrightarrow> from_wire (to_wire w) = Some w"
  by (simp add: wf_msg_def from_wire_def to_wire_def get_put_u16 get_put_name get_put_rrs
      get_put_rrs_end)

lemma split_dot_nodot: "CHR ''.'' \<notin> set s \<Longrightarrow> split_dot s = [s]"
  by (induction s) auto

lemma split_dot_append:
  "CHR ''.'' \<notin> set s \<Longrightarrow> split_dot (s @ CHR ''.'' # t) = s # split_dot t"
  by (induction s) auto

lemma of_char_digit: "d < 10 \<Longrightarrow> (of_char (digit_char d) :: nat) = 48 + d"
  by (simp add: digit_char_def)

lemma digit_char_eq: "d < 10 \<Longrightarrow> (digit_char d = c) = ((of_char c :: nat) = 48 + d)"
  using of_char_eq_iff [of "digit_char d" c, where ?'a = nat] by (simp add: of_char_digit eq_commute)

lemma digit_char_nodot: "d < 10 \<Longrightarrow> CHR ''.'' \<noteq> digit_char d"
  using digit_char_eq [of d "CHR ''.''"] by auto

lemma digit_char_zero: "d < 10 \<Longrightarrow> (digit_char d = CHR ''0'') = (d = 0)"
  using digit_char_eq [of d "CHR ''0''"] by auto

lemma str_octet_nodot: "n < 256 \<Longrightarrow> CHR ''.'' \<notin> set (str_octet n)"
  by (simp add: str_octet_def digit_char_nodot)

lemma parse_digits1: "d < 10 \<Longrightarrow> parse_octet [digit_char d] = Some d"
  by (auto simp: parse_octet_def isdigit_def int10_def digit_val_def of_char_digit digit_char_zero)

lemma parse_digits2:
  "d1 < 10 \<Longrightarrow> d2 < 10 \<Longrightarrow> d1 \<noteq> 0 \<Longrightarrow>
   parse_octet [digit_char d1, digit_char d2] = Some (10 * d1 + d2)"
  by (simp add: parse_octet_def isdigit_def int10_def digit_val_def of_char_digit digit_char_zero)

lemma parse_digits3:
  "d1 < 10 \<Longrightarrow> d2 < 10 \<Longrightarrow> d3 < 10 \<Longrightarrow> d1 \<noteq> 0 \<Longrightarrow> 10 * (10 * d1 + d2) + d3 < 256 \<Longrightarrow>
   parse_octet [digit_char d1, digit_char d2, digit_char d3] = Some (10 * (10 * d1 + d2) + d3)"
  by (simp add: parse_octet_def isdigit_def int10_def digit_val_def of_char_digit digit_char_zero)

lemma parse_str_octet: "n < 256 \<Longrightarrow> parse_octet (str_octet n) = Some n"
proof -
  assume n: "n < 256"
  consider "n < 10" | "10 \<le> n" "n < 100" | "100 \<le> n"
    by linarith
  then show ?thesis
  proof cases
    case 1
    then show ?thesis
      by (simp add: str_octet_def parse_digits1)
  next
    case 2
    then have d: "n div 10 < 10" "n mod 10 < 10" "n div 10 \<noteq> 0"
      by simp_all
    have e: "10 * (n div 10) + n mod 10 = n"
      by simp
    show ?thesis
      using 2 parse_digits2 [OF d] by (simp add: str_octet_def e)
  next
    case 3
    have h: "n div 100 = n div 10 div 10"
      by (simp add: div_mult2_eq)
    have d: "n div 100 < 10" "n div 10 mod 10 < 10" "n mod 10 < 10" "n div 100 \<noteq> 0"
      using n 3 by simp_all
    have "10 * (n div 10 div 10) + n div 10 mod 10 = n div 10"
      by simp
    then have e: "10 * (10 * (n div 100) + n div 10 mod 10) + n mod 10 = n"
      by (simp add: h)
    have "10 * (10 * (n div 100) + n div 10 mod 10) + n mod 10 < 256"
      using n by (simp only: e)
    from parse_digits3 [OF d this]
    have "parse_octet [digit_char (n div 100), digit_char (n div 10 mod 10), digit_char (n mod 10)] = Some n"
      unfolding e .
    then show ?thesis
      using 3 by (simp add: str_octet_def)
  qed
qed

lemma octets_bound: "list_all (\<lambda>b. b < 256) (octets ip)"
proof -
  have "unat ip < 2 ^ 32"
    using unsigned_less [of ip, where ?'a = nat] by simp
  then have "unat ip div 2 ^ 24 < 2 ^ 8"
    by simp
  then have "unat (drop_bit 24 ip) < 2 ^ 8"
    by (simp add: drop_bit_eq_div unat_div)
  moreover have "unat (take_bit 8 x) < 2 ^ 8" for x :: ipv4
  proof -
    have "unat (take_bit 8 x) = take_bit 8 (unat x)"
      by (rule unsigned_take_bit_eq)
    also have "\<dots> < 2 ^ 8"
      by (rule take_bit_nat_less_exp)
    finally show ?thesis .
  qed
  ultimately show ?thesis
    by (simp add: octets_def)
qed

lemma from_octets_octets:
  "octets ip = [a, b, c, d] \<Longrightarrow> from_octets a b c d = ip"
proof -
  assume "octets ip = [a, b, c, d]"
  then have abcd: "a = unat (drop_bit 24 ip)" "b = unat (take_bit 8 (drop_bit 16 ip))"
      "c = unat (take_bit 8 (drop_bit 8 ip))" "d = unat (take_bit 8 ip)"
    by (simp_all add: octets_def)
  have 1: "ip = push_bit 8 (drop_bit 8 ip) + take_bit 8 ip"
    by (simp add: bits_ident)
  have 2: "drop_bit 8 ip = push_bit 8 (drop_bit 16 ip) + take_bit 8 (drop_bit 8 ip)"
    using bits_ident [of 8 "drop_bit 8 ip"] by (simp add: drop_bit_drop_bit)
  have 3: "drop_bit 16 ip = push_bit 8 (drop_bit 24 ip) + take_bit 8 (drop_bit 16 ip)"
    using bits_ident [of 8 "drop_bit 16 ip"] by (simp add: drop_bit_drop_bit)
  have "from_octets a b c d =
          push_bit 8 (push_bit 8 (push_bit 8 (drop_bit 24 ip) + take_bit 8 (drop_bit 16 ip))
                       + take_bit 8 (drop_bit 8 ip)) + take_bit 8 ip"
    by (simp add: from_octets_def abcd push_bit_add push_bit_push_bit)
  also have "\<dots> = ip"
    using 1 2 3 by simp
  finally show ?thesis .
qed

lemma IPv4Address_compressed: "IPv4Address (compressed ip) = Inr ip"
proof -
  obtain a b c d where o: "octets ip = [a, b, c, d]"
    by (simp add: octets_def)
  with octets_bound [of ip] have lt: "a < 256" "b < 256" "c < 256" "d < 256"
    by simp_all
  have c: "compressed ip = str_octet a @ CHR ''.'' # str_octet b @ CHR ''.'' # str_octet c
                             @ CHR ''.'' # str_octet d"
    by (simp add: compressed_def o)
  have s: "split_dot (compressed ip) = [str_octet a, str_octet b, str_octet c, str_octet d]"
    by (simp add: c split_dot_append split_dot_nodot str_octet_nodot lt)
  have ne: "compressed ip \<noteq> []"
    by (simp add: c)
  show ?thesis
    using from_octets_octets [OF o]
    by (simp add: IPv4Address_def ne s parse_str_octet lt)
qed

lemma wf_name_append: "list_all valid_label xs \<Longrightarrow> wf_name n \<Longrightarrow> wf_name (xs @ n)"
  by (simp add: wf_name_def butlast_append)

lemma octets_length: "length (octets ip) = 4"
  by (simp add: octets_def)

lemma read_replace_wire:
  assumes "list_all valid_label (split_dot h)" and "wf_name (name_of_text z)"
    and "0 \<le> t" and "t < 4294967296" and "mid < 65536"
  shows "(case serialize mid \<lparr>u_zone = z, u_keyring = k,
                                 u_actions = [Replace h t ''A'' (compressed ip)]\<rparr> of
            None \<Rightarrow> None
          | Some bs \<Rightarrow> decode bs) =
         Some \<lparr>op_zone = name_of_text z, op_name = split_dot h @ name_of_text z,
                op_type = TYPE_A, op_ttl = nat t, op_addresses = [ip]\<rparr>"
proof -
  let ?n = "split_dot h @ name_of_text z"
  let ?d = "\<lparr>rr_name = ?n, rr_type = TYPE_A, rr_class = CLASS_ANY, rr_ttl = 0, rr_rdata = []\<rparr>"
  let ?a = "\<lparr>rr_name = ?n, rr_type = TYPE_A, rr_class = CLASS_IN, rr_ttl = nat t,
             rr_rdata = octets ip\<rparr>"
  let ?w = "\<lparr>w_id = mid, w_flags = OPCODE_UPDATE * 2048, w_zone = name_of_text z,
             w_ztype = TYPE_SOA, w_zclass = CLASS_IN, w_prereq = [], w_update = [?d, ?a],
             w_additional = []\<rparr>"
  have w: "wire_of mid \<lparr>u_zone = z, u_keyring = k,
                         u_actions = [Replace h t ''A'' (compressed ip)]\<rparr> = Some ?w"
    using assms(3,4) by (simp add: wire_of_def IPv4Address_compressed)
  have n: "wf_name ?n"
    using assms(1,2) by (rule wf_name_append)
  have t: "nat t < 4294967296"
    using assms(3,4) by simp
  have "wf_msg ?w"
    using assms(2,5) n t
    by (simp add: wf_msg_def wf_rr_def octets_length TYPE_A_def TYPE_SOA_def CLASS_IN_def
        CLASS_ANY_def OPCODE_UPDATE_def)
  then have f: "from_wire (to_wire ?w) = Some ?w"
    by (rule from_to_wire)
  obtain a b c d where o: "octets ip = [a, b, c, d]"
    by (simp add: octets_def)
  have r: "read_replace ?w =
             Some \<lparr>op_zone = name_of_text z, op_name = ?n, op_type = TYPE_A, op_ttl = nat t,
                    op_addresses = [ip]\<rparr>"
    using from_octets_octets [OF o]
    by (simp add: read_replace_def o OPCODE_UPDATE_def)
  show ?thesis
    by (simp add: serialize_def w decode_def f r)
qed

lemma main_sends:
  assumes "name_server config = NS_Addr a" and "zone config \<noteq> []" and "hostname config \<noteq> []"
    and "tsig config \<noteq> []"
    and "tsigkeyring_from_text e (key_dict (tsig config)) = Inr keyring"
    and "get_interface_ip psutil (interface config) = (evs, Some ip)"
    and "Update_raises e (zone config) keyring = None"
    and "replace_raises e (Update (zone config) keyring) (hostname config) (ttl config) ''A''
           (compressed ip) = None"
    and "dns_query e (protocol config) = Some q"
  shows "filter is_Query (fst (main e psutil config)) =
           [Query (protocol config)
              \<lparr>u_zone = zone config, u_keyring = keyring,
               u_actions = [Replace (hostname config) (ttl config) ''A'' (compressed ip)]\<rparr>
              a (timeout config)]"
proof -
  have g: "filter is_Query evs = []"
    using get_interface_ip_events [of psutil "interface config"] assms(6) by simp
  have c: "is_Query (classify config r) = False" for r
    by (simp add: classify_def)
  show ?thesis
    using assms
    by (simp add: main_def Let_def try_update_def exchange_def Update_def replace_def g c
        split: prod.splits sum.splits)
qed

text \<open>
  Claim C2. For a configuration that passes the precondition checks, a
  resolved address, a host name of valid labels, a valid zone name (both
  written in plain ASCII) and a positive TTL that fits 32 bits, \<open>main\<close> hands the transport exactly one
  message: an update of the one zone \<open>config.zone\<close> whose only action is the
  replacement of the A records of the host name by one record with the
  configured TTL and the resolved address. Serialising that message and
  decoding the octets gives back exactly this operation: the RRset of type A of
  the host name within the zone is deleted and one address, the resolved one,
  is added with the configured TTL.
\<close>

theorem replace_message_round_trip:
  assumes "name_server config = NS_Addr a" and "zone config \<noteq> []" and "hostname config \<noteq> []"
    and "tsig config \<noteq> []"
    and "tsigkeyring_from_text e (key_dict (tsig config)) = Inr keyring"
    and "get_interface_ip psutil (interface config) = (evs, Some ip)"
    and "Update_raises e (zone config) keyring = None"
    and "replace_raises e (Update (zone config) keyring) (hostname config) (ttl config) ''A''
           (compressed ip) = None"
    and "dns_query e (protocol config) = Some q"
    and "list_all valid_label (split_dot (hostname config))"
    and "wf_name (name_of_text (zone config))"
    and "0 < ttl config" and "ttl config < 4294967296" and "mid < 65536"
    and "plain_text (hostname config)" and "plain_text (zone config)"
  shows "filter is_Query (fst (main e psutil config)) =
           [Query (protocol config)
              \<lparr>u_zone = zone config, u_keyring = keyring,
               u_actions = [Replace (hostname config) (ttl config) ''A'' (compressed ip)]\<rparr>
              a (timeout config)]
       \<and> (case serialize mid
                  \<lparr>u_zone = zone config, u_keyring = keyring,
                   u_actions = [Replace (hostname config) (ttl config) ''A'' (compressed ip)]\<rparr> of
             None \<Rightarrow> None
           | Some bs \<Rightarrow> decode bs) =
          Some \<lparr>op_zone = name_of_text (zone config),
                 op_name = split_dot (hostname config) @ name_of_text (zone config),
                 op_type = TYPE_A, op_ttl = nat (ttl config), op_addresses = [ip]\<rparr>"
proof
  show "filter is_Query (fst (main e psutil config)) =
           [Query (protocol config)
              \<lparr>u_zone = zone config, u_keyring = keyring,
               u_actions = [Replace (hostname config) (ttl config) ''A'' (compressed ip)]\<rparr>
              a (timeout config)]"
    using assms(1-9) by (rule main_sends)
  show "(case serialize mid
                  \<lparr>u_zone = zone config, u_keyring = keyring,
                   u_actions = [Replace (hostname config) (ttl config) ''A'' (compressed ip)]\<rparr> of
             None \<Rightarrow> None
           | Some bs \<Rightarrow> decode bs) =
          Some \<lparr>op_zone = name_of_text (zone config),
                 op_name = split_dot (hostname config) @ name_of_text (zone config),
                 op_type = TYPE_A, op_ttl = nat (ttl config), op_addresses = [ip]\<rparr>"
    using assms(10-14) by (intro read_replace_wire) simp_all
qed

theorem replace_message_round_trip_witness:
  "filter is_Query (fst (main (lib_env (answers \<lparr>rid = 4660, rcode = 0\<rparr>)) (Inr ex_enum) ex_config)) =
     [Query ''udp''
        \<lparr>u_zone = ''example.com.'', u_keyring = [(''ddns-key.'', ''hmac-sha256'', ''c2VjcmV0'')],
         u_actions = [Replace ''host'' 300 ''A'' ''203.0.113.7'']\<rparr> ''192.0.2.53'' 5]
 \<and> (case serialize 4660
            \<lparr>u_zone = ''example.com.'', u_keyring = [(''ddns-key.'', ''hmac-sha256'', ''c2VjcmV0'')],
             u_actions = [Replace ''host'' 300 ''A'' ''203.0.113.7'']\<rparr> of
       None \<Rightarrow> None
     | Some bs \<Rightarrow> decode bs) =
    Some \<lparr>op_zone = [''example'', ''com'', []], op_name = [''host'', ''example'', ''com'', []],
           op_type = 1, op_ttl = 300, op_addresses = [0xCB007107]\<rparr>"
proof -
  let ?e = "lib_env (answers \<lparr>rid = 4660, rcode = 0\<rparr>)"
  let ?k = "[(''ddns-key.'', ''hmac-sha256'', ''c2VjcmV0'')]"
  have c: "name_server ex_config = NS_Addr ''192.0.2.53''" "zone ex_config = ''example.com.''"
      "hostname ex_config = ''host''" "tsig ex_config = [ex_key]" "ttl ex_config = 300"
      "timeout ex_config = 5" "protocol ex_config = ''udp''" "interface ex_config = None"
    by (simp_all add: ex_config_def)
  have 1: "name_server ex_config = NS_Addr ''192.0.2.53''" "zone ex_config \<noteq> []"
      "hostname ex_config \<noteq> []" "tsig ex_config \<noteq> []"
    by (simp_all add: c)
  have 5: "tsigkeyring_from_text ?e (key_dict (tsig ex_config)) = Inr ?k"
    by (simp add: c lib_env_def key_dict_def ex_key_def)
  have 6: "get_interface_ip (Inr ex_enum) (interface ex_config) = ([], Some 0xCB007107)"
    by (simp add: c ex_resolve)
  have 7: "Update_raises ?e (zone ex_config) ?k = None"
    by (simp add: lib_env_def)
  have 8: "replace_raises ?e (Update (zone ex_config) ?k) (hostname ex_config) (ttl ex_config) ''A''
             (compressed 0xCB007107) = None"
    by (simp add: lib_env_def)
  have 9: "dns_query ?e (protocol ex_config) = Some (answers \<lparr>rid = 4660, rcode = 0\<rparr>)"
    by (simp add: c lib_env_def)
  have 10: "list_all valid_label (split_dot (hostname ex_config))"
    by (simp add: c valid_label_def)
  have 11: "wf_name (name_of_text (zone ex_config))"
    by (simp add: c wf_name_def name_of_text_def valid_label_def)
  have 12: "0 < ttl ex_config" "ttl ex_config < 4294967296" "(4660::nat) < 65536"
    by (simp_all add: c)
  have 13: "plain_text (hostname ex_config)" "plain_text (zone ex_config)"
    by (simp_all add: c plain_text_def)
  have n: "name_of_text ''example.com.'' = [''example'', ''com'', []]" "split_dot ''host'' = [''host'']"
    by (simp_all add: name_of_text_def)
  show ?thesis
    using replace_message_round_trip [OF 1 5 6 7 8 9 10 11 12 13]
    by (simp add: c ex_compressed n TYPE_A_def)
qed

end
